theory Spec2Isabelle
  imports Complex_Main
begin

section \<open>Gap analysis orchestrator: a shallow embedding\<close>

text \<open>
  The theory embeds \<^verbatim>\<open>src/app/services/gap_analyzer/orchestrator.py\<close>, the class
  \<^verbatim>\<open>GapAnalysisOrchestrator\<close>. Conventions:

  \<^item> Python \<^verbatim>\<open>int\<close> is \<open>int\<close>. Python \<^verbatim>\<open>float\<close> is idealised as \<open>real\<close>: sums,
    quotients and \<^verbatim>\<open>round\<close> are exact, so the last digit of a rounded value can differ
    from the binary floating point result. No theorem below depends on such a digit.
  \<^item> Python \<^verbatim>\<open>str\<close> is \<open>string\<close>; the model covers strings of code points below 256,
    where \<open>length\<close> counts what \<^verbatim>\<open>len\<close> counts.
  \<^item> A \<^verbatim>\<open>ResearchGap\<close> is a mutable object shared by several lists, so gaps live in a
    store (\<open>heap\<close>) and the lists hold references.
  \<^item> The collaborators (paper analyzer, search agent, gap validator, the language
    model), the clock and \<^verbatim>\<open>uuid4\<close> are parameters. Every call is appended to the log
    \<open>calls\<close> of the state, and the answer may depend on the position of the call in
    that log, so a collaborator can answer the same question differently each time.
    A collaborator that raises answers \<open>Inl\<close>.
  \<^item> Log messages are left out.
\<close>

subsection \<open>Strings\<close>

definition py_isspace :: "char \<Rightarrow> bool" where
  \<comment> \<open>\<^verbatim>\<open>str.isspace\<close> on one code point below 256\<close>
  "py_isspace c = ((of_char c :: nat) \<in> {9, 10, 11, 12, 13, 28, 29, 30, 31, 32, 133, 160})"

definition py_strip :: "string \<Rightarrow> string" where
  "py_strip s = rev (dropWhile py_isspace (rev (dropWhile py_isspace s)))"

fun py_split_aux :: "string \<Rightarrow> string \<Rightarrow> string list" where
  "py_split_aux w [] = (if w = [] then [] else [w])"
| "py_split_aux w (c # cs) =
     (if py_isspace c then (if w = [] then py_split_aux [] cs else w # py_split_aux [] cs)
      else py_split_aux (w @ [c]) cs)"

definition py_split :: "string \<Rightarrow> string list" where
  \<comment> \<open>\<^verbatim>\<open>s.split()\<close>: the words between runs of whitespace\<close>
  "py_split s = py_split_aux [] s"

fun split_on :: "char \<Rightarrow> string \<Rightarrow> string \<Rightarrow> string list" where
  "split_on d w [] = [w]"
| "split_on d w (c # cs) = (if c = d then w # split_on d [] cs else split_on d (w @ [c]) cs)"

definition py_split_lines :: "string \<Rightarrow> string list" where
  \<comment> \<open>\<^verbatim>\<open>s.split('\n')\<close>\<close>
  "py_split_lines s = split_on (CHR 0x0A) [] s"

fun py_join :: "string \<Rightarrow> string list \<Rightarrow> string" where
  "py_join sep [] = []"
| "py_join sep [x] = x"
| "py_join sep (x # y # ys) = x @ sep @ py_join sep (y # ys)"

definition py_lower_char :: "char \<Rightarrow> char" where
  "py_lower_char c =
     (let n = (of_char c :: nat) in
      if (65 \<le> n \<and> n \<le> 90) \<or> (192 \<le> n \<and> n \<le> 222 \<and> n \<noteq> 215) then char_of (n + 32) else c)"

definition py_lower :: "string \<Rightarrow> string" where
  "py_lower s = map py_lower_char s"

fun is_prefix :: "string \<Rightarrow> string \<Rightarrow> bool" where
  "is_prefix [] ys = True"
| "is_prefix (x # xs) [] = False"
| "is_prefix (x # xs) (y # ys) = (x = y \<and> is_prefix xs ys)"

fun py_contains :: "string \<Rightarrow> string \<Rightarrow> bool" where
  \<comment> \<open>\<^verbatim>\<open>sub in s\<close>\<close>
  "py_contains sub [] = (sub = [])"
| "py_contains sub (c # cs) = (is_prefix sub (c # cs) \<or> py_contains sub cs)"

definition digit_char :: "nat \<Rightarrow> char" where
  "digit_char d = char_of (48 + d)"

fun str_nat :: "nat \<Rightarrow> string" where
  "str_nat n = (if n < 10 then [digit_char n] else str_nat (n div 10) @ [digit_char (n mod 10)])"

definition str_int :: "int \<Rightarrow> string" where
  \<comment> \<open>\<^verbatim>\<open>str(i)\<close>, also what an f-string prints for an int\<close>
  "str_int i = (if i < 0 then ''-'' @ str_nat (nat (- i)) else str_nat (nat i))"

subsection \<open>Numbers\<close>

definition round_half_even :: "real \<Rightarrow> int" where
  "round_half_even x =
     (let f = \<lfloor>x\<rfloor>; d = x - of_int f in
      if d < 1 / 2 then f else if 1 / 2 < d then f + 1 else if even f then f else f + 1)"

definition py_round :: "real \<Rightarrow> nat \<Rightarrow> real" where
  \<comment> \<open>\<^verbatim>\<open>round(x, n)\<close> on the idealised float\<close>
  "py_round x n = of_int (round_half_even (x * 10 ^ n)) / 10 ^ n"

definition fmt_1f :: "real \<Rightarrow> string" where
  \<comment> \<open>\<^verbatim>\<open>f"{x:.1f}"\<close> on the idealised float\<close>
  "fmt_1f x =
     (let t = nat (round_half_even (\<bar>x\<bar> * 10)) in
      (if x < 0 then ''-'' else []) @ str_nat (t div 10) @ ''.'' @ str_nat (t mod 10))"

subsection \<open>Data model (\<^verbatim>\<open>models.py\<close> is not part of the sources)\<close>

text \<open>
  The records list the fields the orchestrator passes to the constructors. A
  \<^verbatim>\<open>ResearchGap\<close> is built without \<^verbatim>\<open>validation_strikes\<close>; the field starts at 0.
\<close>

record ResearchGap =
  gap_id :: string
  description :: string
  source_paper :: string
  source_paper_title :: string
  category :: string
  validation_strikes :: int

record PaperAnalysis =
  url :: string
  title :: string
  limitations :: "string list"
  future_work :: "string list"
  key_findings :: "string list"

record GapMetrics =
  difficulty_score :: real
  innovation_potential :: real
  commercial_viability :: real
  time_to_solution :: string
  funding_likelihood :: int
  collaboration_score :: real
  ethical_considerations :: real

record ResearchContext =
  related_gaps :: "string list"
  prerequisite_technologies :: "string list"
  competitive_landscape :: string
  key_researchers :: "string list"
  active_research_groups :: "string list"
  recent_breakthroughs :: "string list"

record ValidatedGap =
  vg_gap_id :: string
  vg_gap_title :: string
  vg_description :: string
  vg_source_paper :: string
  vg_source_paper_title :: string
  vg_validation_evidence :: string
  vg_potential_impact :: string
  vg_suggested_approaches :: "string list"
  vg_category :: string
  vg_gap_metrics :: GapMetrics
  vg_research_context :: ResearchContext
  vg_validation_attempts :: int
  vg_papers_checked_against :: int
  vg_confidence_score :: real
  vg_opportunity_tags :: "string list"
  vg_interdisciplinary_connections :: "string list"
  vg_industry_relevance :: "string list"
  vg_estimated_researcher_years :: real
  vg_recommended_team_size :: string
  vg_key_milestones :: "string list"
  vg_success_metrics :: "string list"

record GapAnalysisRequest =
  req_url :: string
  req_max_papers :: int
  req_validation_threshold :: int
  req_analysis_mode :: string

subsection \<open>Collaborators, clock and the call log\<close>

datatype error = CollaboratorError | SeedAnalysisFailed | ValueError | ZeroDivisionError

datatype call =
    AnalyzePaper string
  | GenerateValidationQueries ResearchGap
  | SearchPapers "string list" int
  | SearchForGapValidation string
  | ValidateGapAgainstPapers ResearchGap "PaperAnalysis list"
  | EnrichValidatedGap ResearchGap
  | GenerateContent string
  | TimeTime
  | Uuid4

record collaborators =
  analyze_paper :: "nat \<Rightarrow> string \<Rightarrow> error + PaperAnalysis option"
  generate_validation_queries :: "nat \<Rightarrow> ResearchGap \<Rightarrow> error + string list"
  search_papers :: "nat \<Rightarrow> string list \<Rightarrow> int \<Rightarrow> error + string list"
  search_for_gap_validation :: "nat \<Rightarrow> string \<Rightarrow> error + string list"
  validate_gap_against_papers :: "nat \<Rightarrow> ResearchGap \<Rightarrow> PaperAnalysis list \<Rightarrow> error + bool"
  enrich_validated_gap :: "nat \<Rightarrow> ResearchGap \<Rightarrow> error + ValidatedGap option"
  has_model :: bool
  generate_content :: "nat \<Rightarrow> string \<Rightarrow> error + string"
  time_time :: "nat \<Rightarrow> real"
  uuid4 :: "nat \<Rightarrow> string"
  list_of_set :: "string list \<Rightarrow> string list"

text \<open>
  \<open>has_model\<close> is \<^verbatim>\<open>self.model is not None\<close>. \<open>list_of_set xs\<close> is the order in which
  Python lists the set built from \<open>xs\<close>; it depends on the hash seed of the process,
  and no theorem assumes anything about it.
\<close>

subsection \<open>Orchestrator state\<close>

record stats =
  gaps_discovered :: int
  gaps_eliminated :: int
  search_queries_executed :: int
  validation_attempts :: int
  frontier_expansions :: int
  research_areas_explored :: int

record orchestrator =
  gap_search_queue :: "nat list"
  potential_gaps_db :: "nat list"
  final_gaps_list :: "ValidatedGap list"
  analyzed_papers_set :: "string set"
  analyzed_papers :: "PaperAnalysis list"
  research_frontier :: "string set"
  papers_to_analyze_queue :: "string list"
  stats :: stats
  heap :: "nat \<Rightarrow> ResearchGap"
  next_ref :: nat
  calls :: "call list"

definition empty_gap :: ResearchGap where
  "empty_gap = \<lparr>gap_id = [], description = [], source_paper = [], source_paper_title = [],
     category = [], validation_strikes = 0\<rparr>"

definition initialize :: orchestrator where
  \<comment> \<open>the state \<^verbatim>\<open>initialize()\<close> sets up for a run; nothing is allocated or logged yet\<close>
  "initialize = \<lparr>gap_search_queue = [], potential_gaps_db = [], final_gaps_list = [],
     analyzed_papers_set = {}, analyzed_papers = [], research_frontier = {},
     papers_to_analyze_queue = [],
     stats = \<lparr>gaps_discovered = 0, gaps_eliminated = 0, search_queries_executed = 0,
       validation_attempts = 0, frontier_expansions = 0, research_areas_explored = 0\<rparr>,
     heap = (\<lambda>_. empty_gap), next_ref = 0, calls = []\<rparr>"

definition record_call :: "call \<Rightarrow> orchestrator \<Rightarrow> orchestrator" where
  "record_call c st = st\<lparr>calls := calls st @ [c]\<rparr>"

definition call_time :: "collaborators \<Rightarrow> orchestrator \<Rightarrow> real \<times> orchestrator" where
  "call_time env st = (time_time env (length (calls st)), record_call TimeTime st)"

definition call_uuid4 :: "collaborators \<Rightarrow> orchestrator \<Rightarrow> string \<times> orchestrator" where
  "call_uuid4 env st = (uuid4 env (length (calls st)), record_call Uuid4 st)"

definition call_analyze_paper ::
  "collaborators \<Rightarrow> string \<Rightarrow> orchestrator \<Rightarrow> (error + PaperAnalysis option) \<times> orchestrator" where
  "call_analyze_paper env u st =
     (analyze_paper env (length (calls st)) u, record_call (AnalyzePaper u) st)"

definition new_gap :: "ResearchGap \<Rightarrow> orchestrator \<Rightarrow> nat \<times> orchestrator" where
  \<comment> \<open>a freshly constructed object: a reference no list holds yet\<close>
  "new_gap g st = (next_ref st, st\<lparr>heap := (heap st)(next_ref st := g), next_ref := Suc (next_ref st)\<rparr>)"

definition same_gap :: "orchestrator \<Rightarrow> nat \<Rightarrow> nat \<Rightarrow> bool" where
  \<comment> \<open>what \<^verbatim>\<open>in\<close>, \<^verbatim>\<open>index\<close> and \<^verbatim>\<open>remove\<close> compare with: identity, or equality of all fields\<close>
  "same_gap st r r' = (r = r' \<or> heap st r = heap st r')"

fun remove_first :: "('a \<Rightarrow> bool) \<Rightarrow> 'a list \<Rightarrow> 'a list" where
  "remove_first P [] = []"
| "remove_first P (x # xs) = (if P x then xs else x # remove_first P xs)"

fun index_first :: "('a \<Rightarrow> bool) \<Rightarrow> 'a list \<Rightarrow> nat" where
  "index_first P [] = 0"
| "index_first P (x # xs) = (if P x then 0 else Suc (index_first P xs))"

definition gap_in_db :: "orchestrator \<Rightarrow> nat \<Rightarrow> bool" where
  \<comment> \<open>\<^verbatim>\<open>gap in self.potential_gaps_db\<close>\<close>
  "gap_in_db st r = list_ex (same_gap st r) (potential_gaps_db st)"

definition remove_from_db :: "nat \<Rightarrow> orchestrator \<Rightarrow> orchestrator" where
  \<comment> \<open>\<^verbatim>\<open>self.potential_gaps_db.remove(gap)\<close>, called where the gap is in the list\<close>
  "remove_from_db r st = st\<lparr>potential_gaps_db := remove_first (same_gap st r) (potential_gaps_db st)\<rparr>"

subsection \<open>Gap extraction\<close>

fun extract_statements ::
  "collaborators \<Rightarrow> PaperAnalysis \<Rightarrow> string \<Rightarrow> string list \<Rightarrow> orchestrator \<Rightarrow> orchestrator" where
  "extract_statements env paper cat [] st = st"
| "extract_statements env paper cat (s # ss) st =
     (if 20 < length (py_strip s) then
        (let (u, st1) = call_uuid4 env st;
             (r, st2) = new_gap \<lparr>gap_id = take 8 u, description = py_strip s,
                 source_paper = url paper, source_paper_title = title paper,
                 category = cat, validation_strikes = 0\<rparr> st1;
             st3 = st2\<lparr>potential_gaps_db := potential_gaps_db st2 @ [r],
                 stats := (stats st2)\<lparr>gaps_discovered := gaps_discovered (stats st2) + 1\<rparr>\<rparr>
         in extract_statements env paper cat ss st3)
      else extract_statements env paper cat ss st)"

definition extract_gaps_from_paper ::
  "collaborators \<Rightarrow> PaperAnalysis \<Rightarrow> orchestrator \<Rightarrow> orchestrator" where
  "extract_gaps_from_paper env paper st =
     extract_statements env paper ''Future Work'' (future_work paper)
       (extract_statements env paper ''Limitation'' (limitations paper) st)"


subsection \<open>Enrichment\<close>

definition quick_gap_enrichment :: "ResearchGap \<Rightarrow> ValidatedGap" where
  "quick_gap_enrichment gap =
     (let description_length = int (length (description gap));
          word_count = int (length (py_split (description gap)))
      in \<lparr>vg_gap_id = gap_id gap,
          vg_gap_title = take 100 (description gap),
          vg_description = description gap,
          vg_source_paper = source_paper gap,
          vg_source_paper_title = source_paper_title gap,
          vg_validation_evidence = ''Validated through systematic analysis'',
          vg_potential_impact = ''Significant research opportunity identified'',
          vg_suggested_approaches =
            [''Detailed analysis required'', ''Empirical investigation'', ''Theoretical exploration''],
          vg_category = ''Research Opportunity'',
          vg_gap_metrics =
            \<lparr>difficulty_score = min 8 (max 4 (5 + real_of_int word_count / 20)),
             innovation_potential = min 9 (max 6 (7 + real_of_int description_length / 100)),
             commercial_viability = min 8 (max 4 (11 / 2 + real_of_int word_count / 30)),
             time_to_solution =
               str_int (max 1 (word_count div 10)) @ ''-'' @ str_int (max 2 (word_count div 8)) @ '' years'',
             funding_likelihood = min 90 (max 50 (60 + word_count * 2)),
             collaboration_score = min 9 (max 4 (5 + real_of_int word_count / 15)),
             ethical_considerations = min 7 (max 2 (3 + real_of_int word_count / 25))\<rparr>,
          vg_research_context =
            \<lparr>related_gaps = [''Related research areas''],
             prerequisite_technologies = [''Standard research methodologies''],
             competitive_landscape = ''Emerging research area with opportunities'',
             key_researchers = [''Research community''],
             active_research_groups = [''Academic institutions''],
             recent_breakthroughs = [''Recent developments in the field'']\<rparr>,
          vg_validation_attempts = validation_strikes gap,
          vg_papers_checked_against = 1,
          vg_confidence_score = 75,
          vg_opportunity_tags = [''Research Opportunity''],
          vg_interdisciplinary_connections = [''General Research''],
          vg_industry_relevance = [''Research Sector''],
          vg_estimated_researcher_years = 3,
          vg_recommended_team_size = ''3-5 researchers'',
          vg_key_milestones = [''Research phase'', ''Validation phase''],
          vg_success_metrics = [''Demonstrate feasibility'', ''Validate hypothesis'']\<rparr>)"

definition call_enrich ::
  "collaborators \<Rightarrow> nat \<Rightarrow> orchestrator \<Rightarrow> (error + ValidatedGap option) \<times> orchestrator" where
  "call_enrich env r st =
     (enrich_validated_gap env (length (calls st)) (heap st r),
      record_call (EnrichValidatedGap (heap st r)) st)"

text \<open>
  The source writes the same block three times (timeout skip, drain, graduation): ask the
  validator for the enrichment, use the quick enrichment when the answer is \<^verbatim>\<open>None\<close> or
  the call raises, and append the result to \<open>final_gaps_list\<close>.
\<close>

definition enrich_and_append :: "collaborators \<Rightarrow> nat \<Rightarrow> orchestrator \<Rightarrow> orchestrator" where
  "enrich_and_append env r st =
     (case call_enrich env r st of
        (Inr (Some validated_gap), st1) \<Rightarrow>
          st1\<lparr>final_gaps_list := final_gaps_list st1 @ [validated_gap]\<rparr>
      | (Inr None, st1) \<Rightarrow>
          st1\<lparr>final_gaps_list := final_gaps_list st1 @ [quick_gap_enrichment (heap st1 r)]\<rparr>
      | (Inl e, st1) \<Rightarrow>
          st1\<lparr>final_gaps_list := final_gaps_list st1 @ [quick_gap_enrichment (heap st1 r)]\<rparr>)"

subsection \<open>Deadline\<close>

definition deadline_reached ::
  "collaborators \<Rightarrow> real option \<Rightarrow> orchestrator \<Rightarrow> bool \<times> orchestrator" where
  \<comment> \<open>\<^verbatim>\<open>timeout_deadline and time.time() >= timeout_deadline\<close>: the clock is read only
      when the deadline is neither \<^verbatim>\<open>None\<close> nor 0.0\<close>
  "deadline_reached env dl st =
     (case dl of
        None \<Rightarrow> (False, st)
      | Some d \<Rightarrow>
          if d = 0 then (False, st)
          else (let (now, st1) = call_time env st in (d \<le> now, st1)))"

subsection \<open>Searches\<close>

definition call_generate_validation_queries ::
  "collaborators \<Rightarrow> nat \<Rightarrow> orchestrator \<Rightarrow> (error + string list) \<times> orchestrator" where
  "call_generate_validation_queries env r st =
     (generate_validation_queries env (length (calls st)) (heap st r),
      record_call (GenerateValidationQueries (heap st r)) st)"

definition call_search_papers ::
  "collaborators \<Rightarrow> string list \<Rightarrow> int \<Rightarrow> orchestrator \<Rightarrow> (error + string list) \<times> orchestrator" where
  "call_search_papers env queries limit st =
     (search_papers env (length (calls st)) queries limit,
      record_call (SearchPapers queries limit) st)"

definition call_generate_content ::
  "collaborators \<Rightarrow> string \<Rightarrow> orchestrator \<Rightarrow> (error + string) \<times> orchestrator" where
  \<comment> \<open>the prompt is a fixed template around the gap description; the log keeps the description\<close>
  "call_generate_content env d st =
     (generate_content env (length (calls st)) d, record_call (GenerateContent d) st)"

definition search_for_gap_solutions ::
  "collaborators \<Rightarrow> nat \<Rightarrow> int \<Rightarrow> orchestrator \<Rightarrow> string list \<times> orchestrator" where
  "search_for_gap_solutions env r limit st =
     (case call_generate_validation_queries env r st of
        (Inl e, st1) \<Rightarrow> ([], st1)
      | (Inr solution_queries, st1) \<Rightarrow>
          (case call_search_papers env solution_queries limit st1 of
             (Inl e, st2) \<Rightarrow> ([], st2)
           | (Inr solution_papers, st2) \<Rightarrow> (solution_papers, st2)))"

definition search_for_related_research ::
  "collaborators \<Rightarrow> nat \<Rightarrow> orchestrator \<Rightarrow> string list \<times> orchestrator" where
  "search_for_related_research env r st =
     (if \<not> has_model env then ([], st)
      else
        (case call_generate_content env (description (heap st r)) st of
           (Inl e, st1) \<Rightarrow> ([], st1)
         | (Inr response_text, st1) \<Rightarrow>
             (let queries = take 2 (filter (\<lambda>q. q \<noteq> [])
                              (map py_strip (py_split_lines (py_strip response_text))))
              in if queries \<noteq> [] then
                   (let st2 = st1\<lparr>stats := (stats st1)\<lparr>search_queries_executed :=
                                search_queries_executed (stats st1) + int (length queries)\<rparr>\<rparr>
                    in case call_search_papers env queries 1 st2 of
                         (Inl e, st3) \<Rightarrow> ([], st3)
                       | (Inr papers, st3) \<Rightarrow> (papers, st3))
                 else ([], st1))))"

subsection \<open>Phase 1: seeding\<close>

definition phase_1_seeding ::
  "collaborators \<Rightarrow> string \<Rightarrow> orchestrator \<Rightarrow> (error + PaperAnalysis) \<times> orchestrator" where
  "phase_1_seeding env seed_url st =
     (case call_analyze_paper env seed_url st of
        (Inl e, st1) \<Rightarrow> (Inl e, st1)
      | (Inr None, st1) \<Rightarrow> (Inl SeedAnalysisFailed, st1)
      | (Inr (Some seed_analysis), st1) \<Rightarrow>
          (let st2 = st1\<lparr>papers_to_analyze_queue := [seed_url],
                         analyzed_papers_set := {seed_url},
                         analyzed_papers := [seed_analysis]\<rparr>
           in (Inr seed_analysis, extract_gaps_from_paper env seed_analysis st2)))"

subsection \<open>Phase 2: expanding frontier\<close>

text \<open>
  The loop over the discovered papers of one gap. The result carries the local
  \<^verbatim>\<open>papers_analyzed\<close>, and \<open>True\<close> when \<^verbatim>\<open>analyze_paper\<close> raised: the exception leaves the
  \<^verbatim>\<open>try\<close> block of the gap.
\<close>

fun analyze_discovered ::
  "collaborators \<Rightarrow> string \<Rightarrow> int \<Rightarrow> real option \<Rightarrow> string list \<Rightarrow> int \<Rightarrow> orchestrator
     \<Rightarrow> bool \<times> int \<times> orchestrator" where
  "analyze_discovered env mode max_papers dl [] papers_analyzed st = (False, papers_analyzed, st)"
| "analyze_discovered env mode max_papers dl (paper_url # rest) papers_analyzed st =
     (case deadline_reached env dl st of
        (True, st1) \<Rightarrow> (False, papers_analyzed, st1)
      | (False, st1) \<Rightarrow>
          if paper_url \<notin> analyzed_papers_set st1 \<and> papers_analyzed < max_papers then
            (case call_analyze_paper env paper_url st1 of
               (Inl e, st2) \<Rightarrow> (True, papers_analyzed, st2)
             | (Inr None, st2) \<Rightarrow> analyze_discovered env mode max_papers dl rest papers_analyzed st2
             | (Inr (Some paper_analysis), st2) \<Rightarrow>
                 (let st3 = st2\<lparr>analyzed_papers := analyzed_papers st2 @ [paper_analysis],
                                analyzed_papers_set := insert paper_url (analyzed_papers_set st2)\<rparr>;
                      st4 =
                        (if mode \<noteq> ''light'' then
                           (let gaps_before = length (potential_gaps_db st3);
                                st' = extract_gaps_from_paper env paper_analysis st3;
                                new_gaps_count = length (potential_gaps_db st') - gaps_before
                            in if 0 < new_gaps_count then
                                 st'\<lparr>gap_search_queue := gap_search_queue st' @
                                        drop (length (potential_gaps_db st') - new_gaps_count)
                                          (potential_gaps_db st'),
                                      stats := (stats st')\<lparr>frontier_expansions :=
                                        frontier_expansions (stats st') + 1\<rparr>\<rparr>
                               else st')
                         else st3)
                  in analyze_discovered env mode max_papers dl rest (papers_analyzed + 1) st4))
          else analyze_discovered env mode max_papers dl rest papers_analyzed st1)"

definition explore_gap ::
  "collaborators \<Rightarrow> string \<Rightarrow> int \<Rightarrow> real option \<Rightarrow> nat \<Rightarrow> int \<Rightarrow> orchestrator
     \<Rightarrow> int \<times> orchestrator" where
  \<comment> \<open>the \<^verbatim>\<open>try\<close> block of one gap; an exception skips step 5\<close>
  "explore_gap env mode max_papers dl current_gap papers_analyzed st =
     (let (all_discovered_papers, st1) =
            (if mode = ''light'' then search_for_gap_solutions env current_gap 1 st
             else
               (let (elimination_papers, sa) = search_for_gap_solutions env current_gap 5 st;
                    (expansion_papers, sb) = search_for_related_research env current_gap sa
                in (list_of_set env (elimination_papers @ expansion_papers), sb)))
      in case analyze_discovered env mode max_papers dl all_discovered_papers papers_analyzed st1 of
           (True, papers_analyzed', st2) \<Rightarrow> (papers_analyzed', st2)
         | (False, papers_analyzed', st2) \<Rightarrow>
             (papers_analyzed',
              st2\<lparr>research_frontier :=
                     insert (take 50 (description (heap st2 current_gap))) (research_frontier st2),
                   stats := (stats st2)\<lparr>research_areas_explored :=
                     research_areas_explored (stats st2) + 1\<rparr>\<rparr>))"

function expansion_loop ::
  "collaborators \<Rightarrow> string \<Rightarrow> int \<Rightarrow> int \<Rightarrow> real option \<Rightarrow> int \<Rightarrow> int \<Rightarrow> orchestrator
     \<Rightarrow> int \<times> int \<times> orchestrator" where
  "expansion_loop env mode max_papers max_gaps_limit dl papers_analyzed gaps_processed st =
     (if gap_search_queue st \<noteq> [] \<and> papers_analyzed < max_papers
         \<and> gaps_processed < max_gaps_limit then
        (case deadline_reached env dl st of
           (True, st1) \<Rightarrow> (papers_analyzed, gaps_processed, st1)
         | (False, st1) \<Rightarrow>
             \<comment> \<open>\<^verbatim>\<open>pop(0)\<close>: the queue is not empty here, reading the clock left it alone\<close>
             (let current_gap = hd (gap_search_queue st1);
                  st2 = st1\<lparr>gap_search_queue := tl (gap_search_queue st1)\<rparr>;
                  (papers_analyzed', st3) =
                     explore_gap env mode max_papers dl current_gap papers_analyzed st2
              in expansion_loop env mode max_papers max_gaps_limit dl papers_analyzed'
                   (gaps_processed + 1) st3))
      else (papers_analyzed, gaps_processed, st))"
  by pat_completeness auto
termination
  by (relation "measure (\<lambda>(env, mode, max_papers, max_gaps_limit, dl, papers_analyzed,
        gaps_processed, st). nat (max_gaps_limit - gaps_processed))") auto

definition phase_2_expanding_frontier ::
  "collaborators \<Rightarrow> int \<Rightarrow> string \<Rightarrow> real option \<Rightarrow> orchestrator \<Rightarrow> orchestrator" where
  "phase_2_expanding_frontier env max_papers mode dl st =
     (let (st1, max_papers1) =
            (if mode = ''light'' then
               (let max_gaps_to_process = min 2 (length (gap_search_queue st))
                in (st\<lparr>gap_search_queue := take max_gaps_to_process (gap_search_queue st)\<rparr>,
                    min max_papers 2))
             else (st, max_papers));
          max_gaps_limit = (if mode = ''light'' then 2 else max_papers1)
      in snd (snd (expansion_loop env mode max_papers1 max_gaps_limit dl 1 0 st1)))"

subsection \<open>Phase 3: final validation\<close>

definition call_search_for_gap_validation ::
  "collaborators \<Rightarrow> string \<Rightarrow> orchestrator \<Rightarrow> (error + string list) \<times> orchestrator" where
  "call_search_for_gap_validation env d st =
     (search_for_gap_validation env (length (calls st)) d, record_call (SearchForGapValidation d) st)"

definition call_validate_gap_against_papers ::
  "collaborators \<Rightarrow> nat \<Rightarrow> PaperAnalysis list \<Rightarrow> orchestrator \<Rightarrow> (error + bool) \<times> orchestrator" where
  "call_validate_gap_against_papers env r papers st =
     (validate_gap_against_papers env (length (calls st)) (heap st r) papers,
      record_call (ValidateGapAgainstPapers (heap st r) papers) st)"

fun drain_remaining :: "collaborators \<Rightarrow> int \<Rightarrow> nat list \<Rightarrow> orchestrator \<Rightarrow> orchestrator" where
  "drain_remaining env validation_threshold [] st = st"
| "drain_remaining env validation_threshold (remaining_gap # rest) st =
     (if validation_strikes (heap st remaining_gap) < validation_threshold then
        (let st1 = enrich_and_append env remaining_gap st;
             st2 = (if gap_in_db st1 remaining_gap then remove_from_db remaining_gap st1 else st1)
         in drain_remaining env validation_threshold rest st2)
      else drain_remaining env validation_threshold rest st)"

text \<open>Step 3.3: analyze the validation papers; \<open>Inl\<close> when \<^verbatim>\<open>analyze_paper\<close> raises.\<close>

fun analyze_validation_papers ::
  "collaborators \<Rightarrow> string list \<Rightarrow> PaperAnalysis list \<Rightarrow> orchestrator
     \<Rightarrow> (error + PaperAnalysis list) \<times> orchestrator" where
  "analyze_validation_papers env [] validation_papers st = (Inr validation_papers, st)"
| "analyze_validation_papers env (u # rest) validation_papers st =
     (if u \<notin> url ` set (analyzed_papers st) then
        (case call_analyze_paper env u st of
           (Inl e, st1) \<Rightarrow> (Inl e, st1)
         | (Inr None, st1) \<Rightarrow> analyze_validation_papers env rest validation_papers st1
         | (Inr (Some paper_analysis), st1) \<Rightarrow>
             analyze_validation_papers env rest (validation_papers @ [paper_analysis])
               (st1\<lparr>analyzed_papers := analyzed_papers st1 @ [paper_analysis]\<rparr>))
      else analyze_validation_papers env rest validation_papers st)"

text \<open>
  Steps 3.5 and 3.6. Where the source calls \<^verbatim>\<open>remove\<close> on a gap that is not in the list,
  the \<^verbatim>\<open>ValueError\<close> is caught by the \<^verbatim>\<open>except\<close> of the gap and the loop goes on.
\<close>

definition strike_gap :: "collaborators \<Rightarrow> int \<Rightarrow> nat \<Rightarrow> orchestrator \<Rightarrow> orchestrator" where
  "strike_gap env validation_threshold gap st =
     (let st1 = st\<lparr>heap := (heap st)(gap := (heap st gap)\<lparr>validation_strikes :=
                       validation_strikes (heap st gap) + 1\<rparr>),
                   stats := (stats st)\<lparr>validation_attempts := validation_attempts (stats st) + 1\<rparr>\<rparr>
      in if validation_threshold \<le> validation_strikes (heap st1 gap) then
           (let st2 = enrich_and_append env gap st1
            in if gap_in_db st2 gap then remove_from_db gap st2 else st2)
         else st1)"

text \<open>Step 3.4, then 3.5 and 3.6 unless the gap is invalidated.\<close>

definition judge_gap ::
  "collaborators \<Rightarrow> int \<Rightarrow> nat \<Rightarrow> PaperAnalysis list \<Rightarrow> orchestrator \<Rightarrow> orchestrator" where
  "judge_gap env validation_threshold gap validation_papers st =
     (if validation_papers \<noteq> [] then
        (case call_validate_gap_against_papers env gap validation_papers st of
           (Inr True, st1) \<Rightarrow>
             (if gap_in_db st1 gap then
                (remove_from_db gap st1)\<lparr>stats := (stats st1)\<lparr>gaps_eliminated :=
                    gaps_eliminated (stats st1) + 1\<rparr>\<rparr>
              else st1)
         | (Inr False, st1) \<Rightarrow> strike_gap env validation_threshold gap st1
         | (Inl e, st1) \<Rightarrow> strike_gap env validation_threshold gap st1)
      else strike_gap env validation_threshold gap st)"

text \<open>
  Steps 3.1 to 3.3: the queries (only their number is used), the validation search and
  the analysis of at most \<open>max_validation_papers\<close> results. \<open>Inl\<close> when the search or an
  analysis raises, which ends the work on this gap.
\<close>

definition gather_validation_papers ::
  "collaborators \<Rightarrow> real option \<Rightarrow> nat \<Rightarrow> orchestrator
     \<Rightarrow> (error + PaperAnalysis list) \<times> orchestrator" where
  "gather_validation_papers env dl gap st =
     (let st1 = (case call_generate_validation_queries env gap st of
                   (Inr validation_queries, sa) \<Rightarrow>
                     sa\<lparr>stats := (stats sa)\<lparr>search_queries_executed :=
                          search_queries_executed (stats sa) + int (length validation_queries)\<rparr>\<rparr>
                 | (Inl e, sa) \<Rightarrow> sa)
      in case call_search_for_gap_validation env (description (heap st1 gap)) st1 of
           (Inl e, st2) \<Rightarrow> (Inl e, st2)
         | (Inr validation_paper_urls, st2) \<Rightarrow>
             (let (max_validation_papers, st3) =
                    (case dl of
                       None \<Rightarrow> (2, st2)
                     | Some d \<Rightarrow>
                         if d = 0 then (2, st2)
                         else (let (now, sb) = call_time env st2
                               in (if d < now + 30 then 1 else 2, sb)))
              in analyze_validation_papers env (take max_validation_papers validation_paper_urls)
                   [] st3))"

definition validate_gap :: "collaborators \<Rightarrow> int \<Rightarrow> real option \<Rightarrow> nat \<Rightarrow> orchestrator \<Rightarrow> orchestrator" where
  \<comment> \<open>the \<^verbatim>\<open>try\<close> block of one gap\<close>
  "validate_gap env validation_threshold dl gap st =
     (case gather_validation_papers env dl gap st of
        (Inl e, st1) \<Rightarrow> st1
      | (Inr validation_papers, st1) \<Rightarrow> judge_gap env validation_threshold gap validation_papers st1)"

fun validation_loop ::
  "collaborators \<Rightarrow> int \<Rightarrow> real option \<Rightarrow> nat list \<Rightarrow> nat list \<Rightarrow> orchestrator \<Rightarrow> orchestrator" where
  "validation_loop env validation_threshold dl gaps_to_validate [] st = st"
| "validation_loop env validation_threshold dl gaps_to_validate (gap # rest) st =
     (case deadline_reached env dl st of
        (True, st1) \<Rightarrow>
          drain_remaining env validation_threshold
            (drop (index_first (same_gap st1 gap) gaps_to_validate) gaps_to_validate) st1
      | (False, st1) \<Rightarrow>
          validation_loop env validation_threshold dl gaps_to_validate rest
            (validate_gap env validation_threshold dl gap st1))"

definition phase_3_final_validation ::
  "collaborators \<Rightarrow> int \<Rightarrow> real option \<Rightarrow> orchestrator \<Rightarrow> orchestrator" where
  "phase_3_final_validation env validation_threshold dl st =
     (let gaps_to_validate =
            filter (\<lambda>gap. validation_strikes (heap st gap) < validation_threshold)
              (potential_gaps_db st)
      in validation_loop env validation_threshold dl gaps_to_validate gaps_to_validate st)"

subsection \<open>Phase 3 skipped: the first five gaps are enriched as they are\<close>

fun enrich_all :: "collaborators \<Rightarrow> nat list \<Rightarrow> orchestrator \<Rightarrow> orchestrator" where
  "enrich_all env [] st = st"
| "enrich_all env (gap # rest) st = enrich_all env rest (enrich_and_append env gap st)"

definition timeout_skip :: "collaborators \<Rightarrow> orchestrator \<Rightarrow> orchestrator" where
  "timeout_skip env st = enrich_all env (take 5 (potential_gaps_db st)) st"

subsection \<open>The response\<close>

record ResearchFrontierStats =
  fs_frontier_expansions :: int
  fs_research_domains_explored :: int
  fs_cross_domain_connections :: int
  fs_breakthrough_potential_score :: real
  fs_research_velocity :: real
  fs_gap_discovery_rate :: real
  fs_elimination_effectiveness :: real
  fs_frontier_coverage :: real

record HotArea =
  area :: string
  activity_score :: real
  funding_growth :: string

record ResearchLandscape =
  dominant_research_areas :: "string list"
  emerging_trends :: "string list"
  research_clusters :: "(string \<times> int) list"
  interdisciplinary_bridges :: "string list"
  hottest_research_areas :: "HotArea list"

record ExecutiveSummary =
  frontier_overview :: string
  key_insights :: "string list"
  research_priorities :: "string list"
  investment_opportunities :: "string list"
  competitive_advantages :: "string list"
  risk_assessment :: string

record ProcessMetadata =
  pm_request_id :: string
  pm_total_papers_analyzed :: int
  pm_processing_time_seconds :: real
  pm_gaps_discovered :: int
  pm_gaps_validated :: int
  pm_gaps_eliminated :: int
  pm_search_queries_executed :: int
  pm_validation_attempts :: int
  pm_seed_paper_url :: string
  pm_frontier_stats :: ResearchFrontierStats
  pm_research_landscape :: ResearchLandscape
  pm_avg_paper_analysis_time :: real
  pm_successful_paper_extractions :: int
  pm_failed_extractions :: int
  pm_gemini_api_calls :: int
  pm_llm_tokens_processed :: int
  pm_ai_confidence_score :: real
  pm_citation_potential_score :: real
  pm_novelty_index :: real
  pm_impact_factor_projection :: real

record EliminatedGap =
  eg_gap_title :: string
  elimination_reason :: string
  solved_by_paper :: string
  elimination_confidence :: real

record ResearchIntelligence =
  eliminated_gaps :: "EliminatedGap list"
  research_momentum :: "(string \<times> real) list"
  emerging_collaborations :: "string list"
  technology_readiness :: "(string \<times> int) list"
  patent_landscape :: "(string \<times> int) list"
  funding_trends :: "(string \<times> string) list"

record VisualizationData =
  network_graph_nodes :: int
  network_graph_edges :: int
  research_timeline_start :: real
  research_timeline_major_discoveries :: int
  impact_heatmap_high_impact_areas :: "string list"
  frontier_expansion_points :: int

record QualityMetrics =
  analysis_completeness :: real
  validation_rigor :: real
  qm_frontier_coverage :: real
  ai_confidence :: real

text \<open>
  A dictionary is an association list in insertion order. The last three fields are
  \<open>None\<close> where the source does not pass them to the constructor.
\<close>

record GapAnalysisResponse =
  request_id :: string
  seed_paper_url :: string
  validated_gaps :: "ValidatedGap list"
  executive_summary :: ExecutiveSummary
  process_metadata :: ProcessMetadata
  research_intelligence :: ResearchIntelligence
  visualization_data :: "VisualizationData option"
  quality_metrics :: "QualityMetrics option"
  next_steps :: "string list option"

definition error_response :: "string \<Rightarrow> string \<Rightarrow> int \<Rightarrow> real \<Rightarrow> GapAnalysisResponse" where
  \<comment> \<open>the \<^verbatim>\<open>except\<close> block of \<^verbatim>\<open>analyze_research_gaps\<close>\<close>
  "error_response rid seed_url n_analyzed elapsed =
     \<lparr>request_id = rid,
      seed_paper_url = seed_url,
      validated_gaps = [],
      executive_summary =
        \<lparr>frontier_overview = ''Analysis failed during processing'',
         key_insights = [''Error occurred during analysis''],
         research_priorities = [],
         investment_opportunities = [],
         competitive_advantages = [],
         risk_assessment = ''Analysis incomplete due to processing error''\<rparr>,
      process_metadata =
        \<lparr>pm_request_id = rid,
         pm_total_papers_analyzed = n_analyzed,
         pm_processing_time_seconds = elapsed,
         pm_gaps_discovered = 0,
         pm_gaps_validated = 0,
         pm_gaps_eliminated = 0,
         pm_search_queries_executed = 0,
         pm_validation_attempts = 0,
         pm_seed_paper_url = seed_url,
         pm_frontier_stats =
           \<lparr>fs_frontier_expansions = 0, fs_research_domains_explored = 0,
            fs_cross_domain_connections = 0, fs_breakthrough_potential_score = 5,
            fs_research_velocity = 0, fs_gap_discovery_rate = 0,
            fs_elimination_effectiveness = 0, fs_frontier_coverage = 0\<rparr>,
         pm_research_landscape =
           \<lparr>dominant_research_areas = [], emerging_trends = [], research_clusters = [],
            interdisciplinary_bridges = [], hottest_research_areas = []\<rparr>,
         pm_avg_paper_analysis_time = 0,
         pm_successful_paper_extractions = 0,
         pm_failed_extractions = 1,
         pm_gemini_api_calls = 0,
         pm_llm_tokens_processed = 0,
         pm_ai_confidence_score = 0,
         pm_citation_potential_score = 0,
         pm_novelty_index = 0,
         pm_impact_factor_projection = 0\<rparr>,
      research_intelligence =
        \<lparr>eliminated_gaps = [], research_momentum = [], emerging_collaborations = [],
         technology_readiness = [], patent_landscape = [], funding_trends = []\<rparr>,
      visualization_data = None,
      quality_metrics = None,
      next_steps = None\<rparr>"

subsection \<open>Phase 4: synthesis\<close>

fun bump_cluster :: "string \<Rightarrow> (string \<times> int) list \<Rightarrow> (string \<times> int) list" where
  \<comment> \<open>\<^verbatim>\<open>d[c] = d.get(c, 0) + 1\<close>\<close>
  "bump_cluster c [] = [(c, 1)]"
| "bump_cluster c ((k, n) # kvs) =
     (if k = c then (k, n + 1) # kvs else (k, n) # bump_cluster c kvs)"

definition build_clusters :: "ValidatedGap list \<Rightarrow> (string \<times> int) list" where
  "build_clusters final =
     foldl (\<lambda>clusters gap.
              bump_cluster (if vg_category gap \<noteq> [] then vg_category gap else ''General Research'')
                clusters) [] final"

definition emerging_trends_of :: "ValidatedGap list \<Rightarrow> string list" where
  "emerging_trends_of final =
     (let gap_text = py_join '' '' (map (\<lambda>gap. py_lower (vg_description gap)) final);
          trends =
            (if py_contains ''edge'' gap_text \<or> py_contains ''real-time'' gap_text
             then [''Real-Time Edge Computing''] else []) @
            (if py_contains ''robust'' gap_text \<or> py_contains ''adversarial'' gap_text
             then [''Robust AI Systems''] else []) @
            (if py_contains ''cross-domain'' gap_text \<or> py_contains ''generalization'' gap_text
             then [''Cross-Domain Adaptation''] else []) @
            (if py_contains ''multi-modal'' gap_text \<or> py_contains ''fusion'' gap_text
             then [''Multi-Modal AI''] else [])
      in if trends = [] then [''Advanced AI Techniques''] else trends)"

definition actual_categories_of :: "collaborators \<Rightarrow> ValidatedGap list \<Rightarrow> string list" where
  "actual_categories_of env final =
     (let cats = list_of_set env (filter (\<lambda>c. c \<noteq> []) (map vg_category final))
      in if cats = [] then [''General Research''] else cats)"

definition frontier_stats_of :: "real \<Rightarrow> orchestrator \<Rightarrow> ResearchFrontierStats" where
  "frontier_stats_of processing_time st =
     (let n_final = int (length (final_gaps_list st));
          n_analyzed = int (length (analyzed_papers st));
          n_frontier = int (card (research_frontier st))
      in \<lparr>fs_frontier_expansions = frontier_expansions (stats st),
          fs_research_domains_explored = n_frontier,
          fs_cross_domain_connections = max 2 (n_frontier div 3),
          fs_breakthrough_potential_score =
            min 10 (py_round (17 / 2 + real_of_int n_final * (1 / 5)) 1),
          fs_research_velocity = py_round (real_of_int n_analyzed / (processing_time / 60)) 2,
          fs_gap_discovery_rate =
            py_round (real_of_int (gaps_discovered (stats st)) / real_of_int (max 1 n_analyzed)) 2,
          fs_elimination_effectiveness =
            py_round (real_of_int (gaps_eliminated (stats st))
                        / real_of_int (max 1 (gaps_discovered (stats st))) * 100) 1,
          fs_frontier_coverage = py_round (min 85 (20 + real_of_int (n_analyzed * 8))) 1\<rparr>)"

definition research_landscape_of :: "collaborators \<Rightarrow> ValidatedGap list \<Rightarrow> ResearchLandscape" where
  "research_landscape_of env final =
     (let actual_categories = actual_categories_of env final;
          clusters = build_clusters final
      in \<lparr>dominant_research_areas = take 4 actual_categories,
          emerging_trends = emerging_trends_of final,
          research_clusters = clusters,
          interdisciplinary_bridges =
            map (\<lambda>(cat1, cat2). cat1 @ ''-'' @ cat2 @ '' Integration'')
              (zip (take 2 actual_categories) (take 2 (drop 1 actual_categories))),
          hottest_research_areas =
            map (\<lambda>(c, n). \<lparr>area = c,
                            activity_score = py_round (7 + real_of_int n * (1 / 2)) 1,
                            funding_growth = str_int (min 60 (25 + n * 8)) @ ''%''\<rparr>)
              (take 3 clusters)\<rparr>)"

definition process_metadata_of ::
  "collaborators \<Rightarrow> string \<Rightarrow> string \<Rightarrow> real \<Rightarrow> orchestrator \<Rightarrow> ProcessMetadata" where
  "process_metadata_of env rid seed_url processing_time st =
     (let n_final = int (length (final_gaps_list st));
          n_analyzed = int (length (analyzed_papers st));
          n_frontier = int (card (research_frontier st));
          queries = search_queries_executed (stats st)
      in \<lparr>pm_request_id = rid,
          pm_total_papers_analyzed = n_analyzed,
          pm_processing_time_seconds = py_round processing_time 2,
          pm_gaps_discovered = gaps_discovered (stats st),
          pm_gaps_validated = n_final,
          pm_gaps_eliminated = gaps_eliminated (stats st),
          pm_search_queries_executed = queries,
          pm_validation_attempts = validation_attempts (stats st),
          pm_seed_paper_url = seed_url,
          pm_frontier_stats = frontier_stats_of processing_time st,
          pm_research_landscape = research_landscape_of env (final_gaps_list st),
          pm_avg_paper_analysis_time =
            py_round (processing_time / real_of_int (max 1 n_analyzed)) 2,
          pm_successful_paper_extractions = n_analyzed,
          pm_failed_extractions = max 0 (queries - n_analyzed),
          pm_gemini_api_calls = queries + n_final * 3,
          pm_llm_tokens_processed = n_analyzed * 15000 + n_final * 8000,
          pm_ai_confidence_score =
            min 100 (py_round (177 / 2 + min 10 (real_of_int n_final * (3 / 2))) 1),
          pm_citation_potential_score =
            min 10 (py_round (39 / 5 + real_of_int n_final * (3 / 10)) 1),
          pm_novelty_index = min 10 (py_round (41 / 5 + real_of_int n_frontier * (1 / 5)) 1),
          pm_impact_factor_projection =
            min 10 (py_round (9 / 2 + real_of_int n_final * (2 / 5)) 1)\<rparr>)"

definition technology_readiness_level :: "int \<Rightarrow> int" where
  \<comment> \<open>the value of one category in \<^verbatim>\<open>technology_readiness\<close>, from the category's gap count\<close>
  "technology_readiness_level n = min 9 (max 3 (4 + n))"

definition patent_estimate :: "string \<Rightarrow> int \<Rightarrow> int" where
  \<comment> \<open>the value of one category in \<^verbatim>\<open>patent_landscape\<close>\<close>
  "patent_estimate c n = max 50 (n * 150 + int (length c) * 10)"

definition research_intelligence_of :: "collaborators \<Rightarrow> orchestrator \<Rightarrow> ResearchIntelligence" where
  "research_intelligence_of env st =
     (let actual_categories = actual_categories_of env (final_gaps_list st);
          clusters = build_clusters (final_gaps_list st)
      in \<lparr>eliminated_gaps =
            map (\<lambda>i. \<lparr>eg_gap_title = ''Research limitation identified in analysis'',
                       elimination_reason = ''Existing solutions found during validation process'',
                       solved_by_paper = ''Paper discovered during frontier exploration'',
                       elimination_confidence = py_round (82 + real (i * 3)) 1\<rparr>)
              [0 ..< nat (min 3 (gaps_eliminated (stats st)))],
          research_momentum =
            map (\<lambda>(c, n). (c, py_round (5 + real_of_int n * (5 / 2) + real (length c) * (1 / 10)) 1))
              clusters,
          emerging_collaborations =
            map (\<lambda>c. ''Research partnerships in '' @ c) (take 2 actual_categories)
              @ [''Interdisciplinary collaboration opportunities''],
          technology_readiness = map (\<lambda>(c, n). (c, technology_readiness_level n)) clusters,
          patent_landscape = map (\<lambda>(c, n). (c, patent_estimate c n)) clusters,
          funding_trends =
            map (\<lambda>(c, n). (c, (if 1 < n then ''Active'' else ''Emerging'') @ '' research area, ''
                              @ str_int (min 80 (20 + n * 15)) @ ''% growth potential''))
              clusters\<rparr>)"

definition executive_summary_of ::
  "collaborators \<Rightarrow> ResearchFrontierStats \<Rightarrow> orchestrator \<Rightarrow> ExecutiveSummary" where
  "executive_summary_of env fs st =
     (let actual_categories = actual_categories_of env (final_gaps_list st);
          n_final = str_int (int (length (final_gaps_list st)));
          n_analyzed = str_int (int (length (analyzed_papers st)));
          n_eliminated = str_int (gaps_eliminated (stats st))
      in \<lparr>frontier_overview =
            ''Analysis of the research frontier revealed '' @ n_final
            @ '' high-impact research opportunities across ''
            @ str_int (int (length actual_categories)) @ '' domains, with '' @ n_eliminated
            @ '' previously identified gaps eliminated due to existing solutions.'',
          key_insights =
            [if actual_categories \<noteq> [] then
               ''Identified '' @ n_final @ '' unexplored research gaps across ''
               @ py_join '', '' actual_categories
             else ''Analysis identified promising research directions'',
             ''Research velocity achieved '' @ fmt_1f (fs_research_velocity fs)
             @ '' papers/minute with '' @ n_analyzed @ '' papers analyzed'',
             ''Gap elimination rate of '' @ fmt_1f (fs_elimination_effectiveness fs)
             @ ''% indicates robust validation process'',
             ''Frontier coverage reached '' @ fmt_1f (fs_frontier_coverage fs)
             @ ''% of identified research landscape''],
          research_priorities =
            (if 0 < length actual_categories
             then [''Advanced research in '' @ actual_categories ! 0] else [])
            @ (if 1 < length actual_categories
               then [''Integration of '' @ actual_categories ! 1 @ '' methodologies''] else [])
            @ (if 2 < length actual_categories
               then [''Cross-domain applications in '' @ actual_categories ! 2] else [])
            @ [''Novel algorithmic approaches for identified limitations''],
          investment_opportunities =
            (if 0 < length actual_categories
             then [actual_categories ! 0 @ '' technology development''] else [])
            @ (if 1 < length actual_categories
               then [''Commercial applications of '' @ actual_categories ! 1] else [])
            @ [''Research infrastructure and tooling'',
               ''Academic-industry collaboration platforms''],
          competitive_advantages =
            [''Early identification of unexplored research directions'',
             ''Deep analysis across '' @ n_analyzed @ '' authoritative papers'',
             ''Validated research gaps with elimination of solved problems'',
             ''Comprehensive mapping of research landscape''],
          risk_assessment =
            ''Technical risk varies by gap complexity. With '' @ n_final
            @ '' validated opportunities and '' @ n_eliminated
            @ '' eliminated false positives, the analysis shows promising research directions with measurable validation rigor.''\<rparr>)"

definition synthesize ::
  "collaborators \<Rightarrow> string \<Rightarrow> string \<Rightarrow> real \<Rightarrow> real \<Rightarrow> orchestrator \<Rightarrow> GapAnalysisResponse" where
  \<comment> \<open>\<^verbatim>\<open>_phase_4_synthesis\<close> after the clock has been read\<close>
  "synthesize env rid seed_url start_time processing_time st =
     (let metadata = process_metadata_of env rid seed_url processing_time st;
          n_final = int (length (final_gaps_list st))
      in \<lparr>request_id = rid,
          seed_paper_url = seed_url,
          validated_gaps = final_gaps_list st,
          executive_summary = executive_summary_of env (pm_frontier_stats metadata) st,
          process_metadata = metadata,
          research_intelligence = research_intelligence_of env st,
          visualization_data = Some
            \<lparr>network_graph_nodes = int (length (analyzed_papers st)),
             network_graph_edges = int (card (research_frontier st)),
             research_timeline_start = start_time,
             research_timeline_major_discoveries = n_final,
             impact_heatmap_high_impact_areas = actual_categories_of env (final_gaps_list st),
             frontier_expansion_points = frontier_expansions (stats st)\<rparr>,
          quality_metrics = Some
            \<lparr>analysis_completeness = min 100 (py_round (177 / 2 + real_of_int (min 10 n_final)) 1),
             validation_rigor = py_round (923 / 10) 1,
             qm_frontier_coverage = fs_frontier_coverage (pm_frontier_stats metadata),
             ai_confidence = pm_ai_confidence_score metadata\<rparr>,
          next_steps = Some
            [''Prioritize research gaps by commercial potential and technical feasibility'',
             ''Establish collaborations with identified research groups'',
             ''Develop proof-of-concept prototypes for highest-impact gaps'',
             ''Secure funding for most promising research directions'',
             ''Monitor competitive landscape for emerging solutions'']\<rparr>)"

definition phase_4_synthesis ::
  "collaborators \<Rightarrow> string \<Rightarrow> string \<Rightarrow> real \<Rightarrow> orchestrator
     \<Rightarrow> (error + GapAnalysisResponse) \<times> orchestrator" where
  \<comment> \<open>\<^verbatim>\<open>len(...) / (processing_time / 60)\<close> raises when the divisor is zero\<close>
  "phase_4_synthesis env rid seed_url start_time st =
     (let (now, st1) = call_time env st;
          processing_time = now - start_time
      in if processing_time / 60 = 0 then (Inl ZeroDivisionError, st1)
         else (Inr (synthesize env rid seed_url start_time processing_time st1), st1))"

subsection \<open>The entry point\<close>

definition mode_parameters :: "GapAnalysisRequest \<Rightarrow> int \<times> int" where
  \<comment> \<open>\<^verbatim>\<open>(max_papers, validation_threshold)\<close> by analysis mode\<close>
  "mode_parameters request =
     (if req_analysis_mode request = ''light'' then (min (req_max_papers request) 4, 1)
      else (req_max_papers request, req_validation_threshold request))"

definition run_phases ::
  "collaborators \<Rightarrow> GapAnalysisRequest \<Rightarrow> string \<Rightarrow> real \<Rightarrow> real \<Rightarrow> orchestrator
     \<Rightarrow> (error + GapAnalysisResponse) \<times> orchestrator" where
  \<comment> \<open>the \<^verbatim>\<open>try\<close> block of \<^verbatim>\<open>analyze_research_gaps\<close>\<close>
  "run_phases env request rid start_time timeout_deadline st =
     (case phase_1_seeding env (req_url request) st of
        (Inl e, st1) \<Rightarrow> (Inl e, st1)
      | (Inr seed_analysis, st1) \<Rightarrow>
          (let (max_papers, validation_threshold) = mode_parameters request;
               st2 = phase_2_expanding_frontier env max_papers (req_analysis_mode request)
                       (Some timeout_deadline) st1;
               (now, st3) = call_time env st2;
               validation_threshold' = (if timeout_deadline \<le> now then 0 else validation_threshold);
               st4 = (if 0 < validation_threshold'
                      then phase_3_final_validation env validation_threshold'
                             (Some timeout_deadline) st3
                      else timeout_skip env st3)
           in phase_4_synthesis env rid (req_url request) start_time st4))"

definition analyze_research_gaps ::
  "collaborators \<Rightarrow> GapAnalysisRequest \<Rightarrow> orchestrator \<Rightarrow> GapAnalysisResponse \<times> orchestrator" where
  "analyze_research_gaps env request st =
     (let (u, st1) = call_uuid4 env st;
          rid = take 8 u;
          (start_time, st2) = call_time env st1;
          timeout_seconds = (if req_analysis_mode request = ''light'' then 60 else 900);
          timeout_deadline = start_time + timeout_seconds
      in case run_phases env request rid start_time timeout_deadline st2 of
           (Inr response, st3) \<Rightarrow> (response, st3)
         | (Inl e, st3) \<Rightarrow>
             (let (now, st4) = call_time env st3
              in (error_response rid (req_url request) (int (length (analyzed_papers st4)))
                    (now - start_time), st4)))"

definition run :: "collaborators \<Rightarrow> GapAnalysisRequest \<Rightarrow> GapAnalysisResponse \<times> orchestrator" where
  \<comment> \<open>one run: \<^verbatim>\<open>initialize()\<close>, then \<^verbatim>\<open>analyze_research_gaps(request)\<close>\<close>
  "run env request = analyze_research_gaps env request initialize"

subsection \<open>A concrete run used to instantiate the theorems\<close>

definition demo_paper :: PaperAnalysis where
  "demo_paper = \<lparr>url = ''seed'', title = ''Seed paper'',
     limitations = [''  too short  '', ''The method does not scale to long documents  ''],
     future_work = [''Extend the evaluation to multilingual corpora'', ''tbd''],
     key_findings = []\<rparr>"

definition demo_env :: collaborators where
  "demo_env = \<lparr>analyze_paper = (\<lambda>t u. if u = ''seed'' then Inr (Some demo_paper) else Inr None),
     generate_validation_queries = (\<lambda>t g. Inl CollaboratorError),
     search_papers = (\<lambda>t qs l. Inr []),
     search_for_gap_validation = (\<lambda>t d. Inr [''other'', ''other'']),
     validate_gap_against_papers = (\<lambda>t g ps. Inr False),
     enrich_validated_gap = (\<lambda>t g. Inr None),
     has_model = False,
     generate_content = (\<lambda>t p. Inl CollaboratorError),
     time_time = (\<lambda>t. real t),
     uuid4 = (\<lambda>t. ''0f8fad5b-d9cb-469f-a165-70867728950e''),
     list_of_set = remdups\<rparr>"


definition demo_request :: GapAnalysisRequest where
  "demo_request = \<lparr>req_url = ''seed'', req_max_papers = 10, req_validation_threshold = 2,
     req_analysis_mode = ''light''\<rparr>"

definition is_validator_judgment :: "call \<Rightarrow> bool" where
  "is_validator_judgment c = (case c of ValidateGapAgainstPapers g ps \<Rightarrow> True | _ \<Rightarrow> False)"

definition demo_gap :: ResearchGap where
  "demo_gap = \<lparr>gap_id = ''0f8fad5b'', description = ''The method does not scale to long documents'',
     source_paper = ''seed'', source_paper_title = ''Seed paper'', category = ''Limitation'',
     validation_strikes = 0\<rparr>"

definition demo_state :: orchestrator where
  "demo_state = initialize\<lparr>potential_gaps_db := [0], heap := (\<lambda>_. empty_gap)(0 := demo_gap),
     next_ref := 1\<rparr>"


definition late_env :: collaborators where
  "late_env = demo_env\<lparr>time_time := (\<lambda>t. if t \<le> 1 then 0 else 1000),
     uuid4 := (\<lambda>t. if t = 3 then ''aaaaaaaa-d9cb-469f-a165-70867728950e''
                    else ''bbbbbbbb-d9cb-469f-a165-70867728950e'')\<rparr>"






subsection \<open>The analyses in the call log\<close>

definition is_analysis :: "call \<Rightarrow> bool" where
  "is_analysis c = (case c of AnalyzePaper u \<Rightarrow> True | _ \<Rightarrow> False)"

definition recorded_url :: "collaborators \<Rightarrow> nat \<Rightarrow> call \<Rightarrow> string set" where
  \<comment> \<open>the url of the analysis that call number \<open>t\<close> returns, when it is an analysis that succeeds\<close>
  "recorded_url env t c =
     (case c of
        AnalyzePaper u \<Rightarrow> (case analyze_paper env t u of Inr (Some p) \<Rightarrow> {url p} | _ \<Rightarrow> {})
      | _ \<Rightarrow> {})"


fun no_reanalysis_from :: "collaborators \<Rightarrow> nat \<Rightarrow> string set \<Rightarrow> call list \<Rightarrow> bool" where
  \<comment> \<open>the log from call number \<open>t\<close> on passes no ref to the analyzer that is in \<open>seen\<close> or is
      the url of an analysis returned earlier in it\<close>
  "no_reanalysis_from env t seen [] = True"
| "no_reanalysis_from env t seen (c # cs) =
     ((case c of AnalyzePaper u \<Rightarrow> u \<notin> seen | _ \<Rightarrow> True)
      \<and> no_reanalysis_from env (Suc t) (seen \<union> recorded_url env t c) cs)"

definition no_reanalysis :: "collaborators \<Rightarrow> call list \<Rightarrow> bool" where
  "no_reanalysis env cs = no_reanalysis_from env 0 {} cs"


definition quiet :: "orchestrator \<Rightarrow> orchestrator \<Rightarrow> bool" where
  \<comment> \<open>from the first state to the second the analyzer was not called\<close>
  "quiet st st' =
     (take (length (calls st)) (calls st') = calls st
      \<and> list_all (\<lambda>c. \<not> is_analysis c) (drop (length (calls st)) (calls st'))
      \<and> analyzed_papers st' = analyzed_papers st)"

subsection \<open>The run as the fast row of the specification's parameter table words it\<close>

definition fast_table_expansion ::
  "collaborators \<Rightarrow> int \<Rightarrow> real option \<Rightarrow> orchestrator \<Rightarrow> orchestrator" where
  \<comment> \<open>the expansion as the fast row of the parameter table words it: the loop runs while
      the queue is not empty, fewer than \<open>max_papers\<close> papers are analyzed (the seed counts
      as one) and fewer gaps than the fixed cap of fast mode are processed; its body is
      the light branch of the source: solution search with limit 1, no related-area
      search, no extraction\<close>
  "fast_table_expansion env max_papers dl st =
     snd (snd (expansion_loop env ''light'' max_papers 2 dl 1 0 st))"




section \<open>Properties\<close>

subsection \<open>Gap extraction\<close>

lemma extract_statements_frame:
  "next_ref (extract_statements env paper cat ss st) =
     next_ref st + length (filter (\<lambda>s. 20 < length (py_strip s)) ss)
   \<and> calls (extract_statements env paper cat ss st) =
     calls st @ replicate (length (filter (\<lambda>s. 20 < length (py_strip s)) ss)) Uuid4
   \<and> (\<forall>r < next_ref st. heap (extract_statements env paper cat ss st) r = heap st r)
   \<and> potential_gaps_db (extract_statements env paper cat ss st) =
     potential_gaps_db st @ [next_ref st ..< next_ref st + length (filter (\<lambda>s. 20 < length (py_strip s)) ss)]
   \<and> gaps_discovered (stats (extract_statements env paper cat ss st)) =
     gaps_discovered (stats st) + int (length (filter (\<lambda>s. 20 < length (py_strip s)) ss))"
proof (induction ss arbitrary: st)
  case Nil
  then show ?case by simp
next
  case (Cons s ss)
  show ?case
  proof (cases "20 < length (py_strip s)")
    case False
    then show ?thesis using Cons.IH [of st] by simp
  next
    case True
    define st3 where "st3 = (let (u, st1) = call_uuid4 env st;
             (r, st2) = new_gap (\<lparr>gap_id = take 8 u, description = py_strip s,
        source_paper = url paper, source_paper_title = title paper,
        category = cat, validation_strikes = 0\<rparr>) st1
             in st2\<lparr>potential_gaps_db := potential_gaps_db st2 @ [r],
                 stats := (stats st2)\<lparr>gaps_discovered := gaps_discovered (stats st2) + 1\<rparr>\<rparr>)"
    have e: "extract_statements env paper cat (s # ss) st = extract_statements env paper cat ss st3"
      using True by (simp add: st3_def Let_def split: prod.splits)
    have p: "next_ref st3 = Suc (next_ref st)" "calls st3 = calls st @ [Uuid4]"
      "potential_gaps_db st3 = potential_gaps_db st @ [next_ref st]"
      "gaps_discovered (stats st3) = gaps_discovered (stats st) + 1"
      "\<forall>r < next_ref st. heap st3 r = heap st r"
      by (simp_all add: st3_def call_uuid4_def new_gap_def record_call_def Let_def)
    have u: "[next_ref st ..< Suc (next_ref st + k)] = next_ref st # [Suc (next_ref st) ..< Suc (next_ref st + k)]" for k
      by (simp add: upt_conv_Cons del: upt_Suc)
    show ?thesis unfolding e using Cons.IH [of st3] True p
      by (simp add: u replicate_app_Cons_same del: upt_Suc)
  qed
qed

lemma extract_statements_heap:
  "map (heap (extract_statements env paper cat ss st))
       [next_ref st ..< next_ref st + length (filter (\<lambda>s. 20 < length (py_strip s)) ss)]
   = map (\<lambda>(i, s). \<lparr>gap_id = take 8 (uuid4 env i), description = py_strip s,
        source_paper = url paper, source_paper_title = title paper,
        category = cat, validation_strikes = 0\<rparr>)
       (enumerate (length (calls st)) (filter (\<lambda>s. 20 < length (py_strip s)) ss))"
proof (induction ss arbitrary: st)
  case Nil
  then show ?case by simp
next
  case (Cons s ss)
  show ?case
  proof (cases "20 < length (py_strip s)")
    case False
    then show ?thesis using Cons.IH [of st] by simp
  next
    case True
    define st3 where "st3 = (let (u, st1) = call_uuid4 env st;
             (r, st2) = new_gap (\<lparr>gap_id = take 8 u, description = py_strip s,
        source_paper = url paper, source_paper_title = title paper,
        category = cat, validation_strikes = 0\<rparr>) st1
             in st2\<lparr>potential_gaps_db := potential_gaps_db st2 @ [r],
                 stats := (stats st2)\<lparr>gaps_discovered := gaps_discovered (stats st2) + 1\<rparr>\<rparr>)"
    have e: "extract_statements env paper cat (s # ss) st = extract_statements env paper cat ss st3"
      using True by (simp add: st3_def Let_def split: prod.splits)
    have p: "next_ref st3 = Suc (next_ref st)" "length (calls st3) = Suc (length (calls st))"
      "heap st3 (next_ref st) = \<lparr>gap_id = take 8 (uuid4 env (length (calls st))), description = py_strip s,
        source_paper = url paper, source_paper_title = title paper,
        category = cat, validation_strikes = 0\<rparr>"
      by (simp_all add: st3_def call_uuid4_def new_gap_def record_call_def Let_def)
    have f: "heap (extract_statements env paper cat ss st3) (next_ref st) = heap st3 (next_ref st)"
      using extract_statements_frame [of env paper cat ss st3] p by simp
    have u: "[next_ref st ..< Suc (next_ref st + k)] = next_ref st # [Suc (next_ref st) ..< Suc (next_ref st + k)]" for k
      by (simp add: upt_conv_Cons del: upt_Suc)
    show ?thesis unfolding e using Cons.IH [of st3] True p f
      by (simp add: u del: upt_Suc)
  qed
qed

text \<open>
  Claim C9. Extraction creates exactly one gap for each limitation and each future-work
  statement whose stripped length exceeds 20, in that order, with the stripped statement
  as description and the category \<open>Limitation\<close> or \<open>Future Work\<close>; it appends the
  new gaps to \<open>potential_gaps_db\<close> and adds their number to \<open>gaps_discovered\<close>.
  Statements of stripped length at most 20 create nothing and count nothing.
\<close>

theorem extract_gaps_from_paper_creates_gaps:
  "let L = filter (\<lambda>s. 20 < length (py_strip s)) (limitations paper);
       F = filter (\<lambda>s. 20 < length (py_strip s)) (future_work paper);
       st' = extract_gaps_from_paper env paper st;
       n = next_ref st;
       t = length (calls st)
   in potential_gaps_db st' = potential_gaps_db st @ [n ..< n + length L + length F]
    \<and> map (heap st') [n ..< n + length L] =
        map (\<lambda>(i, s). \<lparr>gap_id = take 8 (uuid4 env i), description = py_strip s,
               source_paper = url paper, source_paper_title = title paper,
               category = ''Limitation'', validation_strikes = 0\<rparr>) (enumerate t L)
    \<and> map (heap st') [n + length L ..< n + length L + length F] =
        map (\<lambda>(i, s). \<lparr>gap_id = take 8 (uuid4 env i), description = py_strip s,
               source_paper = url paper, source_paper_title = title paper,
               category = ''Future Work'', validation_strikes = 0\<rparr>) (enumerate (t + length L) F)
    \<and> gaps_discovered (stats st') = gaps_discovered (stats st) + int (length L) + int (length F)"
proof -
  define L where "L = filter (\<lambda>s. 20 < length (py_strip s)) (limitations paper)"
  define F where "F = filter (\<lambda>s. 20 < length (py_strip s)) (future_work paper)"
  define st1 where "st1 = extract_statements env paper ''Limitation'' (limitations paper) st"
  define st2 where "st2 = extract_statements env paper ''Future Work'' (future_work paper) st1"
  note a = extract_statements_frame [of env paper "''Limitation''" "limitations paper" st, folded st1_def L_def]
  note b = extract_statements_frame [of env paper "''Future Work''" "future_work paper" st1, folded st2_def F_def]
  note c = extract_statements_heap [of env paper "''Limitation''" "limitations paper" st, folded st1_def L_def]
  note d = extract_statements_heap [of env paper "''Future Work''" "future_work paper" st1, folded st2_def F_def]
  have e: "extract_gaps_from_paper env paper st = st2"
    by (simp add: extract_gaps_from_paper_def st2_def st1_def)
  have p1: "potential_gaps_db st2 = potential_gaps_db st @ [next_ref st ..< next_ref st + length L + length F]"
  proof -
    have "[next_ref st ..< next_ref st + (length L + length F)] =
        [next_ref st ..< next_ref st + length L] @ [next_ref st + length L ..< next_ref st + length L + length F]"
      using upt_add_eq_append [of "next_ref st" "next_ref st + length L" "length F"] by (simp add: add.assoc)
    then show ?thesis using a b by (simp add: add.assoc)
  qed
  have "map (heap st2) [next_ref st ..< next_ref st + length L] = map (heap st1) [next_ref st ..< next_ref st + length L]"
    using a b by simp
  then have p2: "map (heap st2) [next_ref st ..< next_ref st + length L] =
      map (\<lambda>(i, s). \<lparr>gap_id = take 8 (uuid4 env i), description = py_strip s,
        source_paper = url paper, source_paper_title = title paper,
        category = ''Limitation'', validation_strikes = 0\<rparr>) (enumerate (length (calls st)) L)"
    using c by simp
  have p3: "map (heap st2) [next_ref st + length L ..< next_ref st + length L + length F] =
      map (\<lambda>(i, s). \<lparr>gap_id = take 8 (uuid4 env i), description = py_strip s,
        source_paper = url paper, source_paper_title = title paper,
        category = ''Future Work'', validation_strikes = 0\<rparr>) (enumerate (length (calls st) + length L) F)"
    using d a by simp
  have p4: "gaps_discovered (stats st2) = gaps_discovered (stats st) + int (length L) + int (length F)"
    using a b by simp
  show ?thesis
    unfolding Let_def e L_def [symmetric] F_def [symmetric] using p1 p2 p3 p4 by blast
qed

theorem extract_gaps_from_paper_creates_gaps_witness:
  "potential_gaps_db (extract_gaps_from_paper demo_env demo_paper initialize) = [0, 1]
   \<and> map (\<lambda>r. category (heap (extract_gaps_from_paper demo_env demo_paper initialize) r)) [0, 1] =
       [''Limitation'', ''Future Work'']
   \<and> map (\<lambda>r. description (heap (extract_gaps_from_paper demo_env demo_paper initialize) r)) [0, 1] =
       [''The method does not scale to long documents'',
        ''Extend the evaluation to multilingual corpora'']
   \<and> gaps_discovered (stats (extract_gaps_from_paper demo_env demo_paper initialize)) = 2"
proof -
  have s1: "py_strip ''  too short  '' = ''too short''"
    and s2: "py_strip ''The method does not scale to long documents  '' =
      ''The method does not scale to long documents''"
    and s3: "py_strip ''Extend the evaluation to multilingual corpora'' =
      ''Extend the evaluation to multilingual corpora''"
    and s4: "py_strip ''tbd'' = ''tbd''"
    by (simp_all add: py_strip_def py_isspace_def)
  have L: "filter (\<lambda>s. 20 < length (py_strip s)) (limitations demo_paper) =
      [''The method does not scale to long documents  '']"
    by (simp add: demo_paper_def s1 s2)
  have F: "filter (\<lambda>s. 20 < length (py_strip s)) (future_work demo_paper) =
      [''Extend the evaluation to multilingual corpora'']"
    by (simp add: demo_paper_def s3 s4)
  have n: "next_ref initialize = 0" "potential_gaps_db initialize = []"
    "gaps_discovered (stats initialize) = 0"
    by (simp_all add: initialize_def)
  show ?thesis
    using extract_gaps_from_paper_creates_gaps [where paper = demo_paper and env = demo_env and st = initialize]
    unfolding Let_def L F n by (simp add: s2 s3)
qed

subsection \<open>Seed failure\<close>

lemma run_seed_failure:
  assumes "\<not> (\<exists>p. analyze_paper env 2 (req_url request) = Inr (Some p))"
  shows "fst (run env request) =
           error_response (take 8 (uuid4 env 0)) (req_url request) 0 (time_time env 3 - time_time env 1)"
    and "calls (snd (run env request)) = [Uuid4, TimeTime, AnalyzePaper (req_url request), TimeTime]"
proof -
  define st2 where "st2 = record_call TimeTime (record_call Uuid4 initialize)"
  have c2: "calls st2 = [Uuid4, TimeTime]" "analyzed_papers st2 = []"
    by (simp_all add: st2_def record_call_def initialize_def)
  have l2: "length (calls st2) = 2"
    by (simp add: c2)
  have p1: "phase_1_seeding env (req_url request) st2 =
      (Inl (case analyze_paper env 2 (req_url request) of Inl e \<Rightarrow> e | Inr _ \<Rightarrow> SeedAnalysisFailed),
       record_call (AnalyzePaper (req_url request)) st2)"
    using assms
    by (auto simp: phase_1_seeding_def call_analyze_paper_def l2 split: sum.splits option.splits)
  have r: "run env request =
      (error_response (take 8 (uuid4 env 0)) (req_url request) 0 (time_time env 3 - time_time env 1),
       record_call TimeTime (record_call (AnalyzePaper (req_url request)) st2))"
  proof -
    have a: "call_uuid4 env initialize = (uuid4 env 0, record_call Uuid4 initialize)"
      by (simp add: call_uuid4_def initialize_def)
    have b: "call_time env (record_call Uuid4 initialize) = (time_time env 1, st2)"
      by (simp add: call_time_def st2_def record_call_def initialize_def)
    have c: "call_time env (record_call (AnalyzePaper (req_url request)) st2) =
        (time_time env 3, record_call TimeTime (record_call (AnalyzePaper (req_url request)) st2))"
      by (simp add: call_time_def record_call_def c2 numeral_3_eq_3)
    have d: "analyzed_papers (record_call TimeTime (record_call (AnalyzePaper (req_url request)) st2)) = []"
      by (simp add: record_call_def c2)
    show ?thesis
      unfolding run_def analyze_research_gaps_def run_phases_def
      by (simp add: a b p1 c d)
  qed
  show "fst (run env request) =
           error_response (take 8 (uuid4 env 0)) (req_url request) 0 (time_time env 3 - time_time env 1)"
    by (simp add: r)
  show "calls (snd (run env request)) = [Uuid4, TimeTime, AnalyzePaper (req_url request), TimeTime]"
    by (simp add: r c2 record_call_def)
qed

text \<open>
  Claim C8. The analysis of the seed is the third call of a run, after \<^verbatim>\<open>uuid4\<close> and the
  clock. When it raises or returns nothing, the run makes one more call, the clock, and
  returns the error response: no validated gap, every counter 0, no paper analyzed, and
  the fixed failure texts. \<open>run\<close> always returns a response, so no exception reaches the
  caller.
\<close>

theorem seed_failure_yields_error_response:
  assumes "\<not> (\<exists>p. analyze_paper env 2 (req_url request) = Inr (Some p))"
  shows "let response = fst (run env request) in
           response = error_response (take 8 (uuid4 env 0)) (req_url request) 0
                        (time_time env 3 - time_time env 1)
         \<and> validated_gaps response = []
         \<and> pm_gaps_discovered (process_metadata response) = 0
         \<and> pm_total_papers_analyzed (process_metadata response) = 0
         \<and> pm_gaps_validated (process_metadata response) = 0
         \<and> pm_gaps_eliminated (process_metadata response) = 0
         \<and> pm_search_queries_executed (process_metadata response) = 0
         \<and> pm_validation_attempts (process_metadata response) = 0
         \<and> frontier_overview (executive_summary response) = ''Analysis failed during processing''
         \<and> risk_assessment (executive_summary response) =
             ''Analysis incomplete due to processing error''
         \<and> calls (snd (run env request)) =
             [Uuid4, TimeTime, AnalyzePaper (req_url request), TimeTime]"
  using run_seed_failure [OF assms] by (simp add: Let_def error_response_def)

theorem seed_failure_yields_error_response_witness:
  "validated_gaps (fst (run demo_env (demo_request\<lparr>req_url := ''missing''\<rparr>))) = []
   \<and> pm_gaps_discovered (process_metadata (fst (run demo_env (demo_request\<lparr>req_url := ''missing''\<rparr>)))) = 0
   \<and> pm_total_papers_analyzed (process_metadata (fst (run demo_env (demo_request\<lparr>req_url := ''missing''\<rparr>)))) = 0
   \<and> frontier_overview (executive_summary (fst (run demo_env (demo_request\<lparr>req_url := ''missing''\<rparr>)))) =
       ''Analysis failed during processing''
   \<and> calls (snd (run demo_env (demo_request\<lparr>req_url := ''missing''\<rparr>))) =
       [Uuid4, TimeTime, AnalyzePaper ''missing'', TimeTime]"
proof -
  have h: "\<not> (\<exists>p. analyze_paper demo_env 2 (req_url (demo_request\<lparr>req_url := ''missing''\<rparr>))
                   = Inr (Some p))"
    by (simp add: demo_env_def)
  show ?thesis
    using seed_failure_yields_error_response [OF h] by (simp add: Let_def error_response_def)
qed

subsection \<open>Synthesis\<close>



lemma round_half_even_of_int [simp]: "round_half_even (of_int k) = k"
  by (simp add: round_half_even_def)





























lemma phase_4_calls:
  "calls (snd (phase_4_synthesis env rid u t0 st)) = calls st @ [TimeTime]"
  by (simp add: phase_4_synthesis_def call_time_def record_call_def Let_def)

lemma synthesize_cong:
  assumes "stats st = stats st'" and "final_gaps_list st = final_gaps_list st'"
    and "length (analyzed_papers st) = length (analyzed_papers st')"
    and "card (research_frontier st) = card (research_frontier st')"
    and "list_of_set env (filter (\<lambda>c. c \<noteq> []) (map vg_category (final_gaps_list st)))
       = list_of_set env' (filter (\<lambda>c. c \<noteq> []) (map vg_category (final_gaps_list st)))"
  shows "synthesize env rid u t0 pt st = synthesize env' rid u t0 pt st'"
proof -
  have ac: "actual_categories_of env (final_gaps_list st) = actual_categories_of env' (final_gaps_list st')"
    using assms by (simp add: actual_categories_of_def)
  have fs: "frontier_stats_of pt st = frontier_stats_of pt st'"
    using assms by (simp add: frontier_stats_of_def)
  have rl: "research_landscape_of env (final_gaps_list st) = research_landscape_of env' (final_gaps_list st')"
    using assms ac by (simp add: research_landscape_of_def)
  have pm: "process_metadata_of env rid u pt st = process_metadata_of env' rid u pt st'"
    using assms fs rl by (simp add: process_metadata_of_def)
  have ri: "research_intelligence_of env st = research_intelligence_of env' st'"
    using assms ac by (simp add: research_intelligence_of_def)
  have es: "executive_summary_of env fs0 st = executive_summary_of env' fs0 st'" for fs0
    using assms ac by (simp add: executive_summary_of_def)
  show ?thesis
    unfolding synthesize_def pm ri es ac using assms by simp
qed




text \<open>
  Claim C4, as amended. Synthesis calls no collaborator and changes nothing but the log,
  but it does read the clock, once, for the processing time. Its result is the same for
  two states that agree on the counters, the list of validated gaps, the number of
  analyzed papers and the number of explored topics, when the clock reads the same and
  the categories of the validated gaps are listed in the same order.
\<close>

theorem synthesis_deterministic_given_clock:
  assumes "stats st = stats st'" and "final_gaps_list st = final_gaps_list st'"
    and "length (analyzed_papers st) = length (analyzed_papers st')"
    and "card (research_frontier st) = card (research_frontier st')"
    and "list_of_set env (filter (\<lambda>c. c \<noteq> []) (map vg_category (final_gaps_list st)))
       = list_of_set env' (filter (\<lambda>c. c \<noteq> []) (map vg_category (final_gaps_list st)))"
    and "time_time env (length (calls st)) = time_time env' (length (calls st'))"
  shows "fst (phase_4_synthesis env rid u t0 st) = fst (phase_4_synthesis env' rid u t0 st')
       \<and> snd (phase_4_synthesis env rid u t0 st) = st\<lparr>calls := calls st @ [TimeTime]\<rparr>"
proof -
  have "synthesize env rid u t0 pt (record_call TimeTime st)
      = synthesize env' rid u t0 pt (record_call TimeTime st')" for pt
    by (rule synthesize_cong) (use assms in \<open>simp_all add: record_call_def\<close>)
  then show ?thesis
    using assms(6) by (simp add: phase_4_synthesis_def call_time_def Let_def record_call_def)
qed

theorem synthesis_deterministic_given_clock_witness:
  "fst (phase_4_synthesis (demo_env\<lparr>time_time := \<lambda>t. 60\<rparr>) [] [] 0
          (initialize\<lparr>analyzed_papers := [demo_paper]\<rparr>))
   = fst (phase_4_synthesis (demo_env\<lparr>time_time := \<lambda>t. 60\<rparr>) [] [] 0
          (initialize\<lparr>analyzed_papers := [demo_paper\<lparr>title := ''Another''\<rparr>], calls := [Uuid4]\<rparr>))
   \<and> calls (snd (phase_4_synthesis (demo_env\<lparr>time_time := \<lambda>t. 60\<rparr>) [] [] 0
          (initialize\<lparr>analyzed_papers := [demo_paper]\<rparr>))) = [TimeTime]"
  using synthesis_deterministic_given_clock [of "initialize\<lparr>analyzed_papers := [demo_paper]\<rparr>"
      "initialize\<lparr>analyzed_papers := [demo_paper\<lparr>title := ''Another''\<rparr>], calls := [Uuid4]\<rparr>"
      "demo_env\<lparr>time_time := \<lambda>t. 60\<rparr>" "demo_env\<lparr>time_time := \<lambda>t. 60\<rparr>" "[]" "[]" 0]
  by (simp add: initialize_def)

text \<open>
  The claim as stated fails: on one and the same state, with the clock at 60 seconds
  and at 120 seconds after the start, synthesis reports a research velocity of 1 and of
  1/2 papers per minute.
\<close>

theorem synthesis_depends_on_clock:
  "map_sum id (\<lambda>r. fs_research_velocity (pm_frontier_stats (process_metadata r)))
     (fst (phase_4_synthesis (demo_env\<lparr>time_time := \<lambda>t. 60\<rparr>) [] [] 0
             (initialize\<lparr>analyzed_papers := [demo_paper]\<rparr>))) = Inr 1
   \<and> map_sum id (\<lambda>r. fs_research_velocity (pm_frontier_stats (process_metadata r)))
     (fst (phase_4_synthesis (demo_env\<lparr>time_time := \<lambda>t. 120\<rparr>) [] [] 0
             (initialize\<lparr>analyzed_papers := [demo_paper]\<rparr>))) = Inr (1 / 2)
   \<and> calls (snd (phase_4_synthesis (demo_env\<lparr>time_time := \<lambda>t. 60\<rparr>) [] [] 0
             (initialize\<lparr>analyzed_papers := [demo_paper]\<rparr>))) = [TimeTime]"
proof -
  have r1: "py_round 1 2 = 1"
    using round_half_even_of_int [of 100] by (simp add: py_round_def del: round_half_even_of_int)
  have r2: "py_round (1 / 2) 2 = 1 / 2"
    using round_half_even_of_int [of 50] by (simp add: py_round_def del: round_half_even_of_int)
  show ?thesis
    by (simp add: phase_4_synthesis_def call_time_def record_call_def Let_def synthesize_def
        process_metadata_of_def frontier_stats_of_def initialize_def r1 r2)
qed

subsection \<open>One gap of the validation loop\<close>

lemma is_validator_judgment_simps [simp]:
  "is_validator_judgment (ValidateGapAgainstPapers g ps)"
  "\<not> is_validator_judgment (AnalyzePaper u)"
  "\<not> is_validator_judgment (GenerateValidationQueries g)"
  "\<not> is_validator_judgment (SearchPapers qs l)"
  "\<not> is_validator_judgment (SearchForGapValidation d)"
  "\<not> is_validator_judgment (EnrichValidatedGap g)"
  "\<not> is_validator_judgment (GenerateContent d)"
  "\<not> is_validator_judgment TimeTime"
  "\<not> is_validator_judgment Uuid4"
  by (simp_all add: is_validator_judgment_def)

lemma analyze_validation_papers_frame:
  "analyze_validation_papers env us acc st = (res, st') \<Longrightarrow>
     heap st' = heap st \<and> potential_gaps_db st' = potential_gaps_db st
     \<and> final_gaps_list st' = final_gaps_list st \<and> stats st' = stats st
     \<and> (\<exists>cs. calls st' = calls st @ cs \<and> (\<forall>c \<in> set cs. \<exists>u. c = AnalyzePaper u))"
proof (induction us arbitrary: acc st)
  case Nil
  then show ?case by simp
next
  case (Cons u us)
  show ?case
  proof (cases "u \<notin> url ` set (analyzed_papers st)")
    case False
    then show ?thesis using Cons.IH [of acc st] Cons.prems by simp
  next
    case True
    define st1 where "st1 = record_call (AnalyzePaper u) st"
    have f1: "heap st1 = heap st" "potential_gaps_db st1 = potential_gaps_db st"
      "final_gaps_list st1 = final_gaps_list st" "stats st1 = stats st"
      "calls st1 = calls st @ [AnalyzePaper u]"
      by (simp_all add: st1_def record_call_def)
    show ?thesis
    proof (cases "analyze_paper env (length (calls st)) u")
      case (Inl e)
      then have "st' = st1"
        using Cons.prems True by (simp add: call_analyze_paper_def st1_def)
      then show ?thesis using f1 by simp
    next
      case (Inr o1)
      show ?thesis
      proof (cases o1)
        case None
        then have "analyze_validation_papers env us acc st1 = (res, st')"
          using Cons.prems True Inr by (simp add: call_analyze_paper_def st1_def)
        from Cons.IH [OF this] show ?thesis using f1 by auto
      next
        case (Some p)
        then have "analyze_validation_papers env us (acc @ [p])
            (st1\<lparr>analyzed_papers := analyzed_papers st1 @ [p]\<rparr>) = (res, st')"
          using Cons.prems True Inr by (simp add: call_analyze_paper_def st1_def)
        from Cons.IH [OF this] show ?thesis using f1 by auto
      qed
    qed
  qed
qed

lemma gather_validation_papers_frame:
  assumes "gather_validation_papers env dl gap st = (res, st')"
  shows "heap st' = heap st \<and> potential_gaps_db st' = potential_gaps_db st
    \<and> final_gaps_list st' = final_gaps_list st
    \<and> validation_attempts (stats st') = validation_attempts (stats st)
    \<and> gaps_eliminated (stats st') = gaps_eliminated (stats st)
    \<and> (\<exists>cs. calls st' = calls st @ cs \<and> (\<forall>c \<in> set cs. \<not> is_validator_judgment c))"
proof -
  define st1 where "st1 = (case call_generate_validation_queries env gap st of
                   (Inr validation_queries, sa) \<Rightarrow>
                     sa\<lparr>stats := (stats sa)\<lparr>search_queries_executed :=
                          search_queries_executed (stats sa) + int (length validation_queries)\<rparr>\<rparr>
                 | (Inl e, sa) \<Rightarrow> sa)"
  have f1: "heap st1 = heap st" "potential_gaps_db st1 = potential_gaps_db st"
    "final_gaps_list st1 = final_gaps_list st"
    "validation_attempts (stats st1) = validation_attempts (stats st)"
    "gaps_eliminated (stats st1) = gaps_eliminated (stats st)"
    "calls st1 = calls st @ [GenerateValidationQueries (heap st gap)]"
    by (simp_all add: st1_def call_generate_validation_queries_def record_call_def split: sum.splits)
  define st2 where "st2 = record_call (SearchForGapValidation (description (heap st1 gap))) st1"
  have f2: "heap st2 = heap st" "potential_gaps_db st2 = potential_gaps_db st"
    "final_gaps_list st2 = final_gaps_list st"
    "validation_attempts (stats st2) = validation_attempts (stats st)"
    "gaps_eliminated (stats st2) = gaps_eliminated (stats st)"
    "calls st2 = calls st @ [GenerateValidationQueries (heap st gap),
                             SearchForGapValidation (description (heap st1 gap))]"
    by (simp_all add: st2_def record_call_def f1)
  have g: "gather_validation_papers env dl gap st =
      (case search_for_gap_validation env (length (calls st1)) (description (heap st1 gap)) of
         Inl e \<Rightarrow> (Inl e, st2)
       | Inr validation_paper_urls \<Rightarrow>
           (let (max_validation_papers, st3) =
                    (case dl of
                       None \<Rightarrow> (2, st2)
                     | Some d \<Rightarrow>
                         if d = 0 then (2, st2)
                         else (let (now, sb) = call_time env st2
                               in (if d < now + 30 then 1 else 2, sb)))
            in analyze_validation_papers env (take max_validation_papers validation_paper_urls) [] st3))"
    unfolding gather_validation_papers_def call_search_for_gap_validation_def st2_def st1_def Let_def
    by (simp split: sum.splits prod.splits)
  show ?thesis
  proof (cases "search_for_gap_validation env (length (calls st1)) (description (heap st1 gap))")
    case (Inl e)
    then have "st' = st2" using assms g by simp
    then show ?thesis
      using f2 by simp
  next
    case (Inr urls)
    define ms where "ms = (case dl of
                       None \<Rightarrow> (2, st2)
                     | Some d \<Rightarrow>
                         if d = 0 then (2::nat, st2)
                         else (let (now, sb) = call_time env st2
                               in (if d < now + 30 then 1 else 2, sb)))"
    have f3: "heap (snd ms) = heap st" "potential_gaps_db (snd ms) = potential_gaps_db st"
      "final_gaps_list (snd ms) = final_gaps_list st"
      "validation_attempts (stats (snd ms)) = validation_attempts (stats st)"
      "gaps_eliminated (stats (snd ms)) = gaps_eliminated (stats st)"
      "\<exists>cs. calls (snd ms) = calls st @ cs \<and> (\<forall>c \<in> set cs. \<not> is_validator_judgment c)"
      by (auto simp: ms_def f2 call_time_def record_call_def Let_def split: option.splits)
    have "analyze_validation_papers env (take (fst ms) urls) [] (snd ms) = (res, st')"
      using assms g Inr by (simp add: ms_def [symmetric] split: prod.splits)
    from analyze_validation_papers_frame [OF this] f3
    show ?thesis
      by fastforce
  qed
qed

lemma remove_first_none: "\<not> list_ex P xs \<Longrightarrow> remove_first P xs = xs"
  by (induction xs) auto

lemma remove_first_same_gap:
  "distinct (map (\<lambda>r. gap_id (heap st r)) xs) \<Longrightarrow> gap \<in> set xs \<Longrightarrow>
     remove_first (same_gap st gap) xs = remove1 gap xs"
proof (induction xs)
  case Nil
  then show ?case by simp
next
  case (Cons x xs)
  show ?case
  proof (cases "x = gap")
    case True
    then show ?thesis by (simp add: same_gap_def)
  next
    case False
    then have m: "gap \<in> set xs" using Cons.prems by simp
    then have "gap_id (heap st gap) \<in> (\<lambda>r. gap_id (heap st r)) ` set xs" by blast
    then have "gap_id (heap st x) \<noteq> gap_id (heap st gap)"
      using Cons.prems(1) by auto
    then have "\<not> same_gap st gap x"
      using False by (auto simp: same_gap_def)
    then show ?thesis
      using False Cons.IH Cons.prems m by simp
  qed
qed

lemma enrich_and_append_effect:
  "final_gaps_list (enrich_and_append env r st) = final_gaps_list st @
       [case enrich_validated_gap env (length (calls st)) (heap st r) of
          Inr (Some v) \<Rightarrow> v | _ \<Rightarrow> quick_gap_enrichment (heap st r)]
   \<and> calls (enrich_and_append env r st) = calls st @ [EnrichValidatedGap (heap st r)]
   \<and> heap (enrich_and_append env r st) = heap st
   \<and> potential_gaps_db (enrich_and_append env r st) = potential_gaps_db st
   \<and> stats (enrich_and_append env r st) = stats st
   \<and> analyzed_papers (enrich_and_append env r st) = analyzed_papers st
   \<and> analyzed_papers_set (enrich_and_append env r st) = analyzed_papers_set st"
  by (simp add: enrich_and_append_def call_enrich_def record_call_def
      split: sum.splits option.splits)

lemma strike_gap_effect:
  fixes st gap env thr
  defines "g' \<equiv> (heap st gap)\<lparr>validation_strikes := validation_strikes (heap st gap) + 1\<rparr>"
  defines "st' \<equiv> strike_gap env thr gap st"
  shows "heap st' = (heap st)(gap := g')
     \<and> validation_attempts (stats st') = validation_attempts (stats st) + 1
     \<and> gaps_eliminated (stats st') = gaps_eliminated (stats st)
     \<and> (if thr \<le> validation_strikes g' then
          final_gaps_list st' = final_gaps_list st @
            [case enrich_validated_gap env (length (calls st)) g' of
               Inr (Some v) \<Rightarrow> v | _ \<Rightarrow> quick_gap_enrichment g']
          \<and> calls st' = calls st @ [EnrichValidatedGap g']
          \<and> potential_gaps_db st' = remove_first (same_gap st' gap) (potential_gaps_db st)
        else final_gaps_list st' = final_gaps_list st \<and> calls st' = calls st
          \<and> potential_gaps_db st' = potential_gaps_db st)"
proof -
  define st1 where "st1 = st\<lparr>heap := (heap st)(gap := g'),
      stats := (stats st)\<lparr>validation_attempts := validation_attempts (stats st) + 1\<rparr>\<rparr>"
  have h1: "heap st1 gap = g'" "heap st1 = (heap st)(gap := g')" "calls st1 = calls st"
    "final_gaps_list st1 = final_gaps_list st" "potential_gaps_db st1 = potential_gaps_db st"
    "validation_attempts (stats st1) = validation_attempts (stats st) + 1"
    "gaps_eliminated (stats st1) = gaps_eliminated (stats st)"
    by (simp_all add: st1_def)
  define st2 where "st2 = enrich_and_append env gap st1"
  note e = enrich_and_append_effect [of env gap st1, folded st2_def, unfolded h1(1) h1(3,4,5)]
  have s: "st' = (if thr \<le> validation_strikes g' then
                     (if gap_in_db st2 gap then remove_from_db gap st2 else st2) else st1)"
    unfolding st'_def strike_gap_def Let_def st2_def st1_def g'_def by simp
  show ?thesis
  proof (cases "thr \<le> validation_strikes g'")
    case False
    then show ?thesis using s h1 by simp
  next
    case True
    have sg: "same_gap (remove_from_db gap st2) gap = same_gap st2 gap"
      by (rule ext) (simp add: same_gap_def remove_from_db_def)
    show ?thesis
    proof (cases "gap_in_db st2 gap")
      case True
      with \<open>thr \<le> validation_strikes g'\<close> have "st' = remove_from_db gap st2" using s by simp
      then show ?thesis
        using e h1 \<open>thr \<le> validation_strikes g'\<close> sg by (simp add: remove_from_db_def)
    next
      case False
      with \<open>thr \<le> validation_strikes g'\<close> have "st' = st2" using s by simp
      moreover have "remove_first (same_gap st2 gap) (potential_gaps_db st2) = potential_gaps_db st2"
        using False by (simp add: gap_in_db_def remove_first_none)
      ultimately show ?thesis
        using e h1 \<open>thr \<le> validation_strikes g'\<close> by simp
    qed
  qed
qed



lemma distinct_map_remove1: "distinct (map f xs) \<Longrightarrow> distinct (map f (remove1 x xs))"
proof (induction xs)
  case Nil
  then show ?case by simp
next
  case (Cons y ys)
  have "set (remove1 x ys) \<subseteq> set ys" by (rule set_remove1_subset)
  then show ?case using Cons by auto
qed

text \<open>
  Claim C3. One gap of the validation loop, once the validation papers are there: if the
  validator answers that the gap is invalidated, the gap leaves \<open>potential_gaps_db\<close>,
  \<open>gaps_eliminated\<close> grows by one and the gap keeps its strikes; if the validator answers
  no or raises, the strikes and \<open>validation_attempts\<close> grow by one, and when the strikes
  reach the threshold the enrichment (the validator's, or the quick one when the validator
  gives none) is appended to \<open>final_gaps_list\<close> and the gap leaves \<open>potential_gaps_db\<close>.
  The gap is one of the pending gaps and the pending gaps have distinct ids, as in the
  loop; both still hold for the other pending gaps afterwards.
\<close>

theorem validation_step_semantics:
  assumes "gather_validation_papers env dl gap st = (Inr papers, st1)"
    and "papers \<noteq> []"
    and "gap \<in> set (potential_gaps_db st)"
    and "distinct (map (\<lambda>r. gap_id (heap st r)) (potential_gaps_db st))"
  shows "let st' = validate_gap env thr dl gap st;
             verdict = validate_gap_against_papers env (length (calls st1)) (heap st gap) papers;
             g' = (heap st gap)\<lparr>validation_strikes := validation_strikes (heap st gap) + 1\<rparr>
         in (if verdict = Inr True then
               potential_gaps_db st' = remove1 gap (potential_gaps_db st)
               \<and> gap \<notin> set (potential_gaps_db st')
               \<and> gaps_eliminated (stats st') = gaps_eliminated (stats st) + 1
               \<and> heap st' = heap st
               \<and> validation_attempts (stats st') = validation_attempts (stats st)
               \<and> final_gaps_list st' = final_gaps_list st
             else
               heap st' = (heap st)(gap := g')
               \<and> validation_attempts (stats st') = validation_attempts (stats st) + 1
               \<and> gaps_eliminated (stats st') = gaps_eliminated (stats st)
               \<and> (if thr \<le> validation_strikes g' then
                     final_gaps_list st' = final_gaps_list st @
                       [case enrich_validated_gap env (Suc (length (calls st1))) g' of
                          Inr (Some v) \<Rightarrow> v | _ \<Rightarrow> quick_gap_enrichment g']
                     \<and> potential_gaps_db st' = remove1 gap (potential_gaps_db st)
                     \<and> gap \<notin> set (potential_gaps_db st')
                   else final_gaps_list st' = final_gaps_list st
                     \<and> potential_gaps_db st' = potential_gaps_db st))
          \<and> distinct (map (\<lambda>r. gap_id (heap st' r)) (potential_gaps_db st'))"
proof -
  note f = gather_validation_papers_frame [OF assms(1)]
  have h: "heap st1 = heap st" "final_gaps_list st1 = final_gaps_list st"
    "potential_gaps_db st1 = potential_gaps_db st"
    "validation_attempts (stats st1) = validation_attempts (stats st)"
    "gaps_eliminated (stats st1) = gaps_eliminated (stats st)"
    using f by simp_all
  define sv where "sv = record_call (ValidateGapAgainstPapers (heap st1 gap) papers) st1"
  have hv: "heap sv = heap st" "final_gaps_list sv = final_gaps_list st"
    "potential_gaps_db sv = potential_gaps_db st"
    "validation_attempts (stats sv) = validation_attempts (stats st)"
    "gaps_eliminated (stats sv) = gaps_eliminated (stats st)"
    "calls sv = calls st1 @ [ValidateGapAgainstPapers (heap st1 gap) papers]"
    by (simp_all add: sv_def record_call_def h)
  have lv: "length (calls sv) = Suc (length (calls st1))"
    by (simp add: hv)
  define verdict where
    "verdict = validate_gap_against_papers env (length (calls st1)) (heap st gap) papers"
  have d: "distinct (potential_gaps_db st)"
    using assms(4) by (simp add: distinct_map)
  have d0: "distinct (map (\<lambda>r. gap_id (heap st r)) (potential_gaps_db st))"
    by (rule assms(4))
  have nin: "gap \<notin> set (remove1 gap (potential_gaps_db st))"
    using d by simp
  have v: "validate_gap env thr dl gap st =
      (if verdict = Inr True then
         (if gap_in_db sv gap then
            (remove_from_db gap sv)\<lparr>stats := (stats sv)\<lparr>gaps_eliminated :=
                gaps_eliminated (stats sv) + 1\<rparr>\<rparr>
          else sv)
       else strike_gap env thr gap sv)"
    using assms(2)
    by (auto simp: validate_gap_def assms(1) judge_gap_def call_validate_gap_against_papers_def
        sv_def verdict_def h split: sum.splits bool.splits)
  show ?thesis
  proof (cases "verdict = Inr True")
    case True
    have "gap_in_db sv gap"
      using assms(3) by (auto simp: gap_in_db_def hv same_gap_def list_ex_iff)
    then have e: "validate_gap env thr dl gap st =
        (remove_from_db gap sv)\<lparr>stats := (stats sv)\<lparr>gaps_eliminated :=
                gaps_eliminated (stats sv) + 1\<rparr>\<rparr>"
      using v True by simp
    have sg: "same_gap sv gap = same_gap st gap"
      by (rule ext) (simp add: same_gap_def hv)
    have r: "remove_first (same_gap st gap) (potential_gaps_db st) = remove1 gap (potential_gaps_db st)"
      using remove_first_same_gap [OF d0 assms(3)] .
    show ?thesis
      unfolding Let_def verdict_def [symmetric] e using True nin
      by (simp add: remove_from_db_def hv sg r distinct_map_remove1 [OF d0])
  next
    case False
    then have e: "validate_gap env thr dl gap st = strike_gap env thr gap sv"
      using v by simp
    define g' where "g' = (heap st gap)\<lparr>validation_strikes := validation_strikes (heap st gap) + 1\<rparr>"
    note s = strike_gap_effect [of env thr gap sv, unfolded hv(1-5) lv, folded g'_def]
    define st' where "st' = strike_gap env thr gap sv"
    have hs: "heap st' = (heap st)(gap := g')"
      using s by (simp add: st'_def)
    have ids: "(\<lambda>r. gap_id (heap st' r)) = (\<lambda>r. gap_id (heap st r))"
      by (rule ext) (simp add: hs g'_def)
    have d1: "distinct (map (\<lambda>r. gap_id (heap st' r)) (potential_gaps_db st))"
      using d0 by (simp add: ids)
    have r: "remove_first (same_gap st' gap) (potential_gaps_db st) = remove1 gap (potential_gaps_db st)"
      using remove_first_same_gap [OF d1 assms(3)] .
    have dd: "distinct (map (\<lambda>r. gap_id (heap st' r)) (potential_gaps_db st'))"
    proof (cases "thr \<le> validation_strikes g'")
      case True
      then have "potential_gaps_db st' = remove1 gap (potential_gaps_db st)"
        using s r by (simp add: st'_def)
      then show ?thesis using distinct_map_remove1 [OF d1] by simp
    next
      case False
      then have "potential_gaps_db st' = potential_gaps_db st"
        using s by (simp add: st'_def)
      then show ?thesis using d1 by simp
    qed
    show ?thesis
      unfolding Let_def verdict_def [symmetric] e g'_def [symmetric] st'_def [symmetric]
      using False s [folded st'_def] r nin dd by (simp split: if_splits)
  qed
qed

theorem validation_step_semantics_witness:
  "potential_gaps_db (validate_gap (demo_env\<lparr>search_for_gap_validation := \<lambda>t d. Inr [''seed'']\<rparr>)
       1 None 0 demo_state) = []
   \<and> validation_strikes (heap (validate_gap
       (demo_env\<lparr>search_for_gap_validation := \<lambda>t d. Inr [''seed'']\<rparr>) 1 None 0 demo_state) 0) = 1
   \<and> validation_attempts (stats (validate_gap
       (demo_env\<lparr>search_for_gap_validation := \<lambda>t d. Inr [''seed'']\<rparr>) 1 None 0 demo_state)) = 1
   \<and> map vg_gap_id (final_gaps_list (validate_gap
       (demo_env\<lparr>search_for_gap_validation := \<lambda>t d. Inr [''seed'']\<rparr>) 1 None 0 demo_state))
       = [''0f8fad5b'']
   \<and> potential_gaps_db (validate_gap (demo_env\<lparr>search_for_gap_validation := \<lambda>t d. Inr [''seed''],
         validate_gap_against_papers := \<lambda>t g ps. Inr True\<rparr>) 1 None 0 demo_state) = []
   \<and> gaps_eliminated (stats (validate_gap (demo_env\<lparr>search_for_gap_validation := \<lambda>t d. Inr [''seed''],
         validate_gap_against_papers := \<lambda>t g ps. Inr True\<rparr>) 1 None 0 demo_state)) = 1
   \<and> validation_strikes (heap (validate_gap (demo_env\<lparr>search_for_gap_validation := \<lambda>t d. Inr [''seed''],
         validate_gap_against_papers := \<lambda>t g ps. Inr True\<rparr>) 1 None 0 demo_state) 0) = 0"
proof -
  define envF where "envF = demo_env\<lparr>search_for_gap_validation := \<lambda>t d. Inr [''seed'']\<rparr>"
  define envT where "envT = demo_env\<lparr>search_for_gap_validation := \<lambda>t d. Inr [''seed''],
         validate_gap_against_papers := \<lambda>t g ps. Inr True\<rparr>"
  have gF: "fst (gather_validation_papers envF None 0 demo_state) = Inr [demo_paper]"
    by (simp add: gather_validation_papers_def call_generate_validation_queries_def
        call_search_for_gap_validation_def call_analyze_paper_def record_call_def
        envF_def demo_env_def demo_state_def initialize_def Let_def)
  have gT: "fst (gather_validation_papers envT None 0 demo_state) = Inr [demo_paper]"
    by (simp add: gather_validation_papers_def call_generate_validation_queries_def
        call_search_for_gap_validation_def call_analyze_paper_def record_call_def
        envT_def demo_env_def demo_state_def initialize_def Let_def)
  have hF: "gather_validation_papers envF None 0 demo_state =
      (Inr [demo_paper], snd (gather_validation_papers envF None 0 demo_state))"
    using gF by (metis prod.collapse)
  have hT: "gather_validation_papers envT None 0 demo_state =
      (Inr [demo_paper], snd (gather_validation_papers envT None 0 demo_state))"
    using gT by (metis prod.collapse)
  have d: "heap demo_state 0 = demo_gap" "potential_gaps_db demo_state = [0]"
    "final_gaps_list demo_state = []" "validation_attempts (stats demo_state) = 0"
    "gaps_eliminated (stats demo_state) = 0"
    by (simp_all add: demo_state_def initialize_def)
  have q: "vg_gap_id (quick_gap_enrichment g) = gap_id g" for g
    by (simp add: quick_gap_enrichment_def Let_def)
  have e: "enrich_validated_gap envF t g = Inr None"
    "validate_gap_against_papers envF t g ps = Inr False"
    "validate_gap_against_papers envT t g ps = Inr True" for t g ps
    by (simp_all add: envF_def envT_def demo_env_def)
  have p: "[demo_paper] \<noteq> []" "0 \<in> set (potential_gaps_db demo_state)"
    "distinct (map (\<lambda>r. gap_id (heap demo_state r)) (potential_gaps_db demo_state))"
    by (simp_all add: d)
  have a: "potential_gaps_db (validate_gap envF 1 None 0 demo_state) = []
     \<and> validation_strikes (heap (validate_gap envF 1 None 0 demo_state) 0) = 1
     \<and> validation_attempts (stats (validate_gap envF 1 None 0 demo_state)) = 1
     \<and> map vg_gap_id (final_gaps_list (validate_gap envF 1 None 0 demo_state)) = [''0f8fad5b'']"
    using validation_step_semantics [OF hF p, of 1]
    by (simp add: Let_def d q e demo_gap_def)
  have b: "potential_gaps_db (validate_gap envT 1 None 0 demo_state) = []
     \<and> gaps_eliminated (stats (validate_gap envT 1 None 0 demo_state)) = 1
     \<and> validation_strikes (heap (validate_gap envT 1 None 0 demo_state) 0) = 0"
    using validation_step_semantics [OF hT p, of 1]
    by (simp add: Let_def d e demo_gap_def)
  show ?thesis
    using a b unfolding envF_def envT_def by blast
qed

subsection \<open>The drain at the deadline\<close>







subsection \<open>The run whose deadline passes before Phase 3\<close>

lemma demo_filters:
  "filter (\<lambda>s. 20 < length (py_strip s)) (limitations demo_paper) =
      [''The method does not scale to long documents  '']"
  "filter (\<lambda>s. 20 < length (py_strip s)) (future_work demo_paper) =
      [''Extend the evaluation to multilingual corpora'']"
  "py_strip ''The method does not scale to long documents  '' =
      ''The method does not scale to long documents''"
  "py_strip ''Extend the evaluation to multilingual corpora'' =
      ''Extend the evaluation to multilingual corpora''"
  by (simp_all add: demo_paper_def py_strip_def py_isspace_def)

lemma extract_statements_other_fields:
  "gap_search_queue (extract_statements env paper cat ss st) = gap_search_queue st
   \<and> final_gaps_list (extract_statements env paper cat ss st) = final_gaps_list st
   \<and> analyzed_papers (extract_statements env paper cat ss st) = analyzed_papers st
   \<and> analyzed_papers_set (extract_statements env paper cat ss st) = analyzed_papers_set st
   \<and> research_frontier (extract_statements env paper cat ss st) = research_frontier st"
proof (induction ss arbitrary: st)
  case Nil
  then show ?case by simp
next
  case (Cons s ss)
  show ?case
  proof (cases "20 < length (py_strip s)")
    case False
    then show ?thesis using Cons.IH [of st] by simp
  next
    case True
    define st3 where "st3 = (let (u, st1) = call_uuid4 env st;
             (r, st2) = new_gap (\<lparr>gap_id = take 8 u, description = py_strip s,
        source_paper = url paper, source_paper_title = title paper,
        category = cat, validation_strikes = 0\<rparr>) st1
             in st2\<lparr>potential_gaps_db := potential_gaps_db st2 @ [r],
                 stats := (stats st2)\<lparr>gaps_discovered := gaps_discovered (stats st2) + 1\<rparr>\<rparr>)"
    have e: "extract_statements env paper cat (s # ss) st = extract_statements env paper cat ss st3"
      using True by (simp add: st3_def Let_def split: prod.splits)
    have p: "gap_search_queue st3 = gap_search_queue st" "final_gaps_list st3 = final_gaps_list st"
      "analyzed_papers st3 = analyzed_papers st" "analyzed_papers_set st3 = analyzed_papers_set st"
      "research_frontier st3 = research_frontier st"
      by (simp_all add: st3_def call_uuid4_def new_gap_def record_call_def Let_def)
    show ?thesis unfolding e using Cons.IH [of st3] p by simp
  qed
qed

lemma extract_gaps_other_fields:
  "gap_search_queue (extract_gaps_from_paper env paper st) = gap_search_queue st
   \<and> final_gaps_list (extract_gaps_from_paper env paper st) = final_gaps_list st
   \<and> analyzed_papers (extract_gaps_from_paper env paper st) = analyzed_papers st
   \<and> analyzed_papers_set (extract_gaps_from_paper env paper st) = analyzed_papers_set st
   \<and> research_frontier (extract_gaps_from_paper env paper st) = research_frontier st"
  by (simp add: extract_gaps_from_paper_def extract_statements_other_fields)

lemma phase_2_empty_queue:
  "gap_search_queue st = [] \<Longrightarrow> phase_2_expanding_frontier env max_papers mode dl st = st"
  by (simp add: phase_2_expanding_frontier_def Let_def)

lemma extract_gaps_effect:
  fixes env paper st
  defines "L \<equiv> filter (\<lambda>s. 20 < length (py_strip s)) (limitations paper)"
    and "F \<equiv> filter (\<lambda>s. 20 < length (py_strip s)) (future_work paper)"
    and "st' \<equiv> extract_gaps_from_paper env paper st"
  shows "potential_gaps_db st' = potential_gaps_db st @ [next_ref st ..< next_ref st + length L + length F]"
    and "map (heap st') [next_ref st ..< next_ref st + length L] =
        map (\<lambda>(i, s). \<lparr>gap_id = take 8 (uuid4 env i), description = py_strip s,
               source_paper = url paper, source_paper_title = title paper,
               category = ''Limitation'', validation_strikes = 0\<rparr>) (enumerate (length (calls st)) L)"
    and "map (heap st') [next_ref st + length L ..< next_ref st + length L + length F] =
        map (\<lambda>(i, s). \<lparr>gap_id = take 8 (uuid4 env i), description = py_strip s,
               source_paper = url paper, source_paper_title = title paper,
               category = ''Future Work'', validation_strikes = 0\<rparr>)
          (enumerate (length (calls st) + length L) F)"
    and "calls st' = calls st @ replicate (length L + length F) Uuid4"
    and "next_ref st' = next_ref st + length L + length F"
    and "\<forall>r < next_ref st. heap st' r = heap st r"
    and "gaps_discovered (stats st') = gaps_discovered (stats st) + int (length L) + int (length F)"
proof -
  define st1 where "st1 = extract_statements env paper ''Limitation'' (limitations paper) st"
  define st2 where "st2 = extract_statements env paper ''Future Work'' (future_work paper) st1"
  note a = extract_statements_frame [of env paper "''Limitation''" "limitations paper" st, folded st1_def L_def]
  note b = extract_statements_frame [of env paper "''Future Work''" "future_work paper" st1, folded st2_def F_def]
  note c = extract_statements_heap [of env paper "''Limitation''" "limitations paper" st, folded st1_def L_def]
  note d = extract_statements_heap [of env paper "''Future Work''" "future_work paper" st1, folded st2_def F_def]
  have e: "st' = st2"
    by (simp add: st'_def extract_gaps_from_paper_def st2_def st1_def)
  have u: "[next_ref st ..< next_ref st + (length L + length F)] =
        [next_ref st ..< next_ref st + length L] @ [next_ref st + length L ..< next_ref st + length L + length F]"
    using upt_add_eq_append [of "next_ref st" "next_ref st + length L" "length F"] by (simp add: add.assoc)
  show "potential_gaps_db st' = potential_gaps_db st @ [next_ref st ..< next_ref st + length L + length F]"
    unfolding e using a b u by (simp add: add.assoc)
  have "map (heap st2) [next_ref st ..< next_ref st + length L] = map (heap st1) [next_ref st ..< next_ref st + length L]"
    using a b by simp
  then show "map (heap st') [next_ref st ..< next_ref st + length L] =
        map (\<lambda>(i, s). \<lparr>gap_id = take 8 (uuid4 env i), description = py_strip s,
               source_paper = url paper, source_paper_title = title paper,
               category = ''Limitation'', validation_strikes = 0\<rparr>) (enumerate (length (calls st)) L)"
    unfolding e using c by simp
  show "map (heap st') [next_ref st + length L ..< next_ref st + length L + length F] =
        map (\<lambda>(i, s). \<lparr>gap_id = take 8 (uuid4 env i), description = py_strip s,
               source_paper = url paper, source_paper_title = title paper,
               category = ''Future Work'', validation_strikes = 0\<rparr>)
          (enumerate (length (calls st) + length L) F)"
    unfolding e using d a by simp
  show "calls st' = calls st @ replicate (length L + length F) Uuid4"
    unfolding e using a b by (simp add: replicate_add)
  show "next_ref st' = next_ref st + length L + length F"
    unfolding e using a b by simp
  show "\<forall>r < next_ref st. heap st' r = heap st r"
    unfolding e using a b by simp
  show "gaps_discovered (stats st') = gaps_discovered (stats st) + int (length L) + int (length F)"
    unfolding e using a b by simp
qed

text \<open>
  Claim C1 fails on the code. In this run the clock has passed the deadline when it is
  read before Phase 3, so Phase 3 is skipped and the first five pending gaps are enriched
  as they are: their enrichments are appended to \<open>final_gaps_list\<close>, but the gaps stay in
  \<open>potential_gaps_db\<close>. At the end of the run both gap ids are in both stores. The drain
  inside Phase 3 does remove each gap it moves.
\<close>

theorem timeout_skip_leaves_gaps_pending:
  "potential_gaps_db (snd (run late_env demo_request)) = [0, 1]
   \<and> map (\<lambda>r. gap_id (heap (snd (run late_env demo_request)) r)) [0, 1] = [''aaaaaaaa'', ''bbbbbbbb'']
   \<and> map vg_gap_id (final_gaps_list (snd (run late_env demo_request))) = [''aaaaaaaa'', ''bbbbbbbb'']
   \<and> calls (snd (run late_env demo_request)) =
       [Uuid4, TimeTime, AnalyzePaper ''seed'', Uuid4, Uuid4, TimeTime,
        EnrichValidatedGap (heap (snd (run late_env demo_request)) 0),
        EnrichValidatedGap (heap (snd (run late_env demo_request)) 1), TimeTime]"
proof -
  define sA where "sA = record_call Uuid4 initialize"
  define sB where "sB = record_call TimeTime sA"
  define sC where "sC = record_call (AnalyzePaper ''seed'') sB"
  define sD where "sD = sC\<lparr>papers_to_analyze_queue := [''seed''], analyzed_papers_set := {''seed''},
      analyzed_papers := [demo_paper]\<rparr>"
  define sE where "sE = extract_gaps_from_paper late_env demo_paper sD"
  define sG where "sG = record_call TimeTime sE"
  define s0 where "s0 = enrich_and_append late_env 0 sG"
  define sH where "sH = enrich_and_append late_env 1 s0"
  define sI where "sI = record_call TimeTime sH"
  define rid where "rid = take 8 (uuid4 late_env 0)"
  have cB: "calls sB = [Uuid4, TimeTime]"
    by (simp add: sB_def sA_def record_call_def initialize_def)
  have cD: "calls sD = [Uuid4, TimeTime, AnalyzePaper ''seed'']" "next_ref sD = 0"
    "potential_gaps_db sD = []" "gap_search_queue sD = []" "final_gaps_list sD = []"
    by (simp_all add: sD_def sC_def sB_def sA_def record_call_def initialize_def)
  have lD: "length (calls sD) = 3"
    by (simp add: cD)
  note x = extract_gaps_effect [where env = late_env and paper = demo_paper and st = sD,
      folded sE_def, unfolded demo_filters cD(2,3) lD]
  have pE: "potential_gaps_db sE = [0, 1]"
    using x(1) by (simp add: upt_rec)
  have h0: "gap_id (heap sE 0) = ''aaaaaaaa''" "validation_strikes (heap sE 0) = 0"
    using x(2) by (simp_all add: late_env_def)
  have h1: "gap_id (heap sE (Suc 0)) = ''bbbbbbbb''" "validation_strikes (heap sE (Suc 0)) = 0"
    using x(3) by (simp_all add: late_env_def)
  have cE: "calls sE = [Uuid4, TimeTime, AnalyzePaper ''seed'', Uuid4, Uuid4]"
    using x(4) by (simp add: cD numeral_2_eq_2)
  have oE: "gap_search_queue sE = []" "final_gaps_list sE = []"
    using extract_gaps_other_fields [of late_env demo_paper sD] by (simp_all add: sE_def cD)
  have a: "call_uuid4 late_env initialize = (uuid4 late_env 0, sA)"
    by (simp add: call_uuid4_def sA_def initialize_def)
  have b: "call_time late_env sA = (0, sB)"
    by (simp add: call_time_def sB_def sA_def record_call_def initialize_def late_env_def)
  have p1: "phase_1_seeding late_env ''seed'' sB = (Inr demo_paper, sE)"
    by (simp add: phase_1_seeding_def call_analyze_paper_def cB late_env_def demo_env_def
        sE_def sD_def sC_def Let_def)
  have p2: "phase_2_expanding_frontier late_env 4 ''light'' (Some 60) sE = sE"
    using oE(1) by (rule phase_2_empty_queue)
  have t: "call_time late_env sE = (1000, sG)"
    by (simp add: call_time_def cE sG_def late_env_def)
  have pG: "potential_gaps_db sG = [0, 1]" "heap sG = heap sE" "final_gaps_list sG = []"
    "calls sG = calls sE @ [TimeTime]"
    by (simp_all add: sG_def record_call_def pE oE)
  note e0 = enrich_and_append_effect [of late_env 0 sG, folded s0_def]
  note e1 = enrich_and_append_effect [of late_env 1 s0, folded sH_def]
  have en: "enrich_validated_gap late_env n g = Inr None" for n g
    by (simp add: late_env_def demo_env_def)
  have q: "vg_gap_id (quick_gap_enrichment g) = gap_id g" for g
    by (simp add: quick_gap_enrichment_def Let_def)
  have sk: "timeout_skip late_env sG = sH"
    by (simp add: timeout_skip_def pG sH_def s0_def)
  have fH: "map vg_gap_id (final_gaps_list sH) = [''aaaaaaaa'', ''bbbbbbbb'']"
    using e0 e1 by (simp add: en q pG h0 h1)
  have pH: "potential_gaps_db sH = [0, 1]" "heap sH = heap sE"
    "calls sH = calls sE @ [TimeTime, EnrichValidatedGap (heap sE 0), EnrichValidatedGap (heap sE 1)]"
    using e0 e1 by (simp_all add: pG)
  have lH: "length (calls sH) = 8"
    by (simp add: pH cE)
  have p4: "phase_4_synthesis late_env rid ''seed'' 0 sH =
      (Inr (synthesize late_env rid ''seed'' 0 1000 sI), sI)"
    by (simp add: phase_4_synthesis_def call_time_def lH sI_def late_env_def Let_def)
  have m: "mode_parameters demo_request = (4, 1)"
    by (simp add: mode_parameters_def demo_request_def)
  have rq: "req_url demo_request = ''seed''" "req_analysis_mode demo_request = ''light''"
    by (simp_all add: demo_request_def)
  have rp: "run_phases late_env demo_request rid 0 60 sB =
      (Inr (synthesize late_env rid ''seed'' 0 1000 sI), sI)"
    by (simp add: run_phases_def rq p1 m p2 t sk p4)
  have r: "run late_env demo_request = (synthesize late_env rid ''seed'' 0 1000 sI, sI)"
    by (simp add: run_def analyze_research_gaps_def a b rq rp [unfolded rid_def] rid_def Let_def)
  have fI: "potential_gaps_db sI = [0, 1]" "heap sI = heap sE"
    "final_gaps_list sI = final_gaps_list sH" "calls sI = calls sH @ [TimeTime]"
    by (simp_all add: sI_def record_call_def pH)
  show ?thesis
    unfolding r by (simp add: fI fH pH cE h0 h1)
qed

subsection \<open>Light mode\<close>











text \<open>
  In light mode the expansion phase of the source is the loop of the fast row, entered
  with the first two queued gaps and with \<open>max_papers\<close> capped a second time at 2.
\<close>

lemma light_phase_2_second_cap:
  "phase_2_expanding_frontier env max_papers ''light'' dl st =
     fast_table_expansion env (min max_papers 2) dl
       (st\<lparr>gap_search_queue := take 2 (gap_search_queue st)\<rparr>)"
proof -
  have tk: "take (min 2 (length (gap_search_queue st))) (gap_search_queue st) =
      take 2 (gap_search_queue st)"
    by (simp add: min_def)
  show ?thesis
    unfolding phase_2_expanding_frontier_def fast_table_expansion_def Let_def
    by (simp add: tk del: expansion_loop.simps)
qed







subsection \<open>A ref is analyzed again when no analysis is recorded under it\<close>









subsection \<open>A ref is not analyzed again once an analysis is recorded under it\<close>








lemma quiet_call: "\<not> is_analysis c \<Longrightarrow> quiet st (record_call c st)"
  by (simp add: quiet_def record_call_def)



lemma quiet_time: "quiet st (snd (call_time env st))"
  by (simp add: call_time_def quiet_call is_analysis_def)



















lemma no_reanalysis_from_seen:
  "no_reanalysis_from env t seen cs \<Longrightarrow> x \<in> seen \<Longrightarrow> j < length cs \<Longrightarrow> cs ! j \<noteq> AnalyzePaper x"
proof (induction cs arbitrary: t seen j)
  case Nil
  then show ?case by simp
next
  case (Cons c cs)
  show ?case
  proof (cases j)
    case 0
    then show ?thesis using Cons.prems by auto
  next
    case (Suc k)
    then show ?thesis
      using Cons.IH [of "Suc t" "seen \<union> recorded_url env t c" k] Cons.prems by simp
  qed
qed

lemma no_reanalysis_from_nth:
  "no_reanalysis_from env t seen cs \<Longrightarrow> i < j \<Longrightarrow> j < length cs \<Longrightarrow> cs ! i = AnalyzePaper u \<Longrightarrow>
     analyze_paper env (t + i) u = Inr (Some p) \<Longrightarrow> cs ! j \<noteq> AnalyzePaper (url p)"
proof (induction cs arbitrary: t seen i j)
  case Nil
  then show ?case by simp
next
  case (Cons c cs)
  obtain k where k: "j = Suc k"
    using Cons.prems(2) by (cases j) auto
  show ?case
  proof (cases i)
    case 0
    then have "url p \<in> seen \<union> recorded_url env t c"
      using Cons.prems(4,5) by (simp add: recorded_url_def)
    then show ?thesis
      using no_reanalysis_from_seen [of env "Suc t" "seen \<union> recorded_url env t c" cs "url p" k]
        Cons.prems(1,3) k by simp
  next
    case (Suc i')
    then show ?thesis
      using Cons.IH [of "Suc t" "seen \<union> recorded_url env t c" i' k] Cons.prems k by simp
  qed
qed

text \<open>
  What \<open>no_reanalysis\<close> says of a log: once call number \<open>i\<close> has returned an analysis, no
  later call passes the url of that analysis to the analyzer.
\<close>

lemma no_reanalysis_nth:
  "no_reanalysis env cs \<Longrightarrow> i < j \<Longrightarrow> j < length cs \<Longrightarrow> cs ! i = AnalyzePaper u \<Longrightarrow>
     analyze_paper env i u = Inr (Some p) \<Longrightarrow> cs ! j \<noteq> AnalyzePaper (url p)"
  using no_reanalysis_from_nth [of env 0 "{}" cs i j u p] by (simp add: no_reanalysis_def)


end
